theory Spec2Isabelle
  imports Complex_Main
begin

section \<open>Data model\<close>

text \<open>
  Times are JavaScript timestamps: milliseconds since the epoch, an integer.
  Prices are JavaScript numbers; the model keeps the finite ones as exact rationals and
  writes \<open>None\<close> for \<open>null\<close>, \<open>undefined\<close> and \<open>NaN\<close>, which the code never
  distinguishes (all three are falsy and fail every comparison).
\<close>

type_synonym time = int

datatype status = Pending | Processing | Success | Failed | Cancelled

text \<open>One element of \<open>purchase.errors\<close> (models/Purchase.js).\<close>

record error_record =
  err_message :: string
  err_timestamp :: time
  err_code :: string
  err_severity :: string

text \<open>
  A document of the Purchase collection (models/Purchase.js). \<open>pid\<close> is the \<open>_id\<close>;
  \<open>attemptNumber\<close>, \<open>lastAttempt\<close> and \<open>maxAttempts\<close> are the fields of
  \<open>attemptInfo\<close>, \<open>orderId\<close> and \<open>transactionId\<close> those of \<open>orderInfo\<close> and
  \<open>paymentInfo\<close> that a successful purchase fills in.
\<close>

record purchase =
  pid :: nat
  p_sku :: string
  p_website :: string
  p_url :: string
  p_status :: status
  p_price :: rat
  p_quantity :: int
  p_totalAmount :: rat
  attemptNumber :: int
  lastAttempt :: time
  maxAttempts :: int
  p_errors :: "error_record list"
  orderId :: "string option"
  transactionId :: "string option"
  p_createdBy :: string
  createdAt :: time

text \<open>The populated \<open>createdBy\<close> of a SKU, one entry of \<open>sku.websites\<close>, and the SKU
  (models/SKU.js), with the fields the scraper manager reads.\<close>

record user =
  u_id :: string
  u_email :: string

record website =
  w_name :: string
  w_url :: string
  w_isActive :: bool

record sku =
  sku_id :: string
  sku_name :: string
  targetPrice :: rat
  maxQuantity :: int
  autoPurchase :: bool
  requireConfirmation :: bool
  createdBy :: "user option"

text \<open>What a scraper's \<open>scrapeProduct\<close> returns: the fields the manager reads, and the
  \<open>website\<close> tag the scrapers put into their results.\<close>

record scrape_result =
  success :: bool
  r_website :: "string option"
  price :: "rat option"
  inStock :: bool
  r_error :: "string option"

text \<open>
  A value of the \<open>results\<close> map: \<open>{...result, sku, website, timestamp}\<close>. The spread
  copies every field of the result; \<open>website\<close> is then overwritten, \<open>sku\<close> and
  \<open>timestamp\<close> are added.
\<close>

record cache_entry = scrape_result +
  c_sku :: string
  c_timestamp :: time

record price_alert =
  a_email :: string
  a_sku :: string
  a_currentPrice :: rat
  a_website :: string

datatype priority = High | Medium | Low

datatype cron_job = PriorityJob priority | CleanupJob

text \<open>
  The scraper manager: its \<open>isRunning\<close> flag, its \<open>cronJobs\<close>, its \<open>results\<close> map (a
  JavaScript \<open>Map\<close>: insertion-ordered, one value per key), the Purchase collection it
  writes to, and the price alerts it hands to the email service. \<open>inflight\<close> lists the
  calls of \<open>scrapeByPriority\<close> that have passed the \<open>isRunning\<close> test and have not yet
  returned: the function is asynchronous, and its caller does not wait for it.
\<close>

record scraper_state =
  sm_isRunning :: bool
  cronJobs :: "cron_job list"
  inflight :: "priority list"
  results :: "(string \<times> cache_entry) list"
  db :: "purchase list"
  alerts :: "price_alert list"

section \<open>Scraper manager (src/scrapers/scraperManager.js)\<close>

text \<open>\<open>Map.prototype.set\<close>: replace the value of an existing key where it stands, append a
  new key at the end.\<close>

fun map_set :: "'k \<Rightarrow> 'v \<Rightarrow> ('k \<times> 'v) list \<Rightarrow> ('k \<times> 'v) list" where
  "map_set k v [] = [(k, v)]"
| "map_set k v ((k', v') # m) = (if k' = k then (k, v) # m else (k', v') # map_set k v m)"

text \<open>\<open>String.prototype.split\<close> with a one-character separator.\<close>

fun split_on :: "char \<Rightarrow> string \<Rightarrow> string list" where
  "split_on c [] = [[]]"
| "split_on c (x # xs) =
     (if x = c then [] # split_on c xs
      else (case split_on c xs of [] \<Rightarrow> [[x]] | p # ps \<Rightarrow> (x # p) # ps))"

definition cacheKey :: "string \<Rightarrow> string \<Rightarrow> string" where
  "cacheKey skuId websiteName = skuId @ ''_'' @ websiteName"

definition cacheEntry :: "sku \<Rightarrow> website \<Rightarrow> scrape_result \<Rightarrow> time \<Rightarrow> cache_entry" where
  "cacheEntry s w r now =
     scrape_result.extend (r\<lparr>r_website := Some (w_name w)\<rparr>)
       \<lparr>c_sku = sku_id s, c_timestamp = now\<rparr>"

text \<open>
  The schema of Purchase (models/Purchase.js) as far as \<open>save()\<close> validates the fields
  that \<open>triggerAutoPurchase\<close> fills from the SKU: \<open>website.name\<close> is one of the
  enumerated names, \<open>website.url\<close> and \<open>createdBy\<close> are required, \<open>quantity\<close> has
  \<open>min: 1\<close>. The schema of SKU asks the same of every SKU document. The price is
  required too: a document with no price is not saved.
\<close>

definition website_enum :: "string list" where
  "website_enum =
     [''target'', ''bestbuy'', ''walmart'', ''samsclub'', ''gamestop'', ''costco'',
      ''pokemoncenter'']"

definition validSku :: "sku \<Rightarrow> website \<Rightarrow> bool" where
  "validSku s w =
     (w_name w \<in> set website_enum \<and> w_url w \<noteq> [] \<and> 1 \<le> maxQuantity s \<and>
      createdBy s \<noteq> None)"

text \<open>
  \<open>triggerAutoPurchase\<close>: construct a Purchase with the schema's defaults (status
  \<open>pending\<close>, attempt number 1, at most 3 attempts, last attempt now) and save it. A
  validation error is caught and logged, and the collection is left as it was. The
  collection is never consulted before the save.
\<close>

definition newPurchase :: "sku \<Rightarrow> website \<Rightarrow> rat \<Rightarrow> time \<Rightarrow> nat \<Rightarrow> purchase" where
  "newPurchase s w p now n =
     \<lparr>pid = n, p_sku = sku_id s, p_website = w_name w, p_url = w_url w,
      p_status = Pending, p_price = p, p_quantity = maxQuantity s,
      p_totalAmount = p * of_int (maxQuantity s),
      attemptNumber = 1, lastAttempt = now, maxAttempts = 3, p_errors = [],
      orderId = None, transactionId = None,
      p_createdBy = (case createdBy s of None \<Rightarrow> [] | Some u \<Rightarrow> u_id u),
      createdAt = now\<rparr>"

definition triggerAutoPurchase ::
  "sku \<Rightarrow> website \<Rightarrow> scrape_result \<Rightarrow> time \<Rightarrow> purchase list \<Rightarrow> purchase list" where
  "triggerAutoPurchase s w r now d =
     (case price r of
        None \<Rightarrow> d
      | Some p \<Rightarrow> if validSku s w then d @ [newPurchase s w p now (length d)] else d)"

text \<open>The condition of the price alert: \<open>result.price && result.price <= sku.targetPrice
  && result.inStock\<close>. A number is truthy when it is neither 0 nor NaN.\<close>

definition priceMeetsTarget :: "sku \<Rightarrow> scrape_result \<Rightarrow> bool" where
  "priceMeetsTarget s r =
     (case price r of
        None \<Rightarrow> False
      | Some p \<Rightarrow> p \<noteq> 0 \<and> p \<le> targetPrice s \<and> inStock r)"

definition sendPriceAlert :: "sku \<Rightarrow> website \<Rightarrow> scrape_result \<Rightarrow> price_alert list \<Rightarrow> price_alert list" where
  "sendPriceAlert s w r out =
     (case (createdBy s, price r) of
        (Some u, Some p) \<Rightarrow>
          out @ [\<lparr>a_email = u_email u, a_sku = sku_id s, a_currentPrice = p,
                   a_website = w_name w\<rparr>]
      | _ \<Rightarrow> out)"

definition processScrapingResult ::
  "sku \<Rightarrow> website \<Rightarrow> scrape_result \<Rightarrow> time \<Rightarrow> scraper_state \<Rightarrow> scraper_state" where
  "processScrapingResult s w r now st =
     (let st1 = st\<lparr>results := map_set (cacheKey (sku_id s) (w_name w)) (cacheEntry s w r now)
                                  (results st)\<rparr>
      in if priceMeetsTarget s r then
           (let st2 = st1\<lparr>alerts := sendPriceAlert s w r (alerts st1)\<rparr>
            in if autoPurchase s \<and> \<not> requireConfirmation s
               then st2\<lparr>db := triggerAutoPurchase s w r now (db st2)\<rparr>
               else st2)
         else st1)"

text \<open>
  \<open>scrapeSingleProduct\<close>, from the point where the scraper has answered. The answer is
  either a result or an exception; only a result with \<open>success\<close> set is processed.
  The scrapers of this model are the seven the constructor registers, so the lookup
  \<open>this.scrapers[website.name]\<close> is part of the function.
\<close>

datatype probe = Returned scrape_result | Thrown string

definition scrapers :: "string list" where
  "scrapers =
     [''target'', ''bestbuy'', ''pokemoncenter'', ''samsclub'', ''costco'', ''walmart'',
      ''gamestop'']"

definition scrapeSingleProduct ::
  "sku \<Rightarrow> website \<Rightarrow> probe \<Rightarrow> time \<Rightarrow> scraper_state \<Rightarrow> scraper_state" where
  "scrapeSingleProduct s w pr now st =
     (if w_name w \<notin> set scrapers then st
      else (case pr of
              Thrown e \<Rightarrow> st
            | Returned r \<Rightarrow> if success r then processScrapingResult s w r now st else st))"

text \<open>
  \<open>getResults(skuId, websiteName = null)\<close>: every entry whose key, split at \<open>_\<close>, starts
  with the SKU id and, when a website name is given (and not the empty string, which
  is falsy), continues with that name.
\<close>

definition keyMatches :: "string \<Rightarrow> string option \<Rightarrow> string \<Rightarrow> bool" where
  "keyMatches skuId websiteName key =
     (let parts = split_on CHR ''_'' key;
          resultSkuId = hd parts;
          resultWebsite = (case tl parts of [] \<Rightarrow> None | x # _ \<Rightarrow> Some x)
      in resultSkuId = skuId \<and>
         (case websiteName of
            None \<Rightarrow> True
          | Some n \<Rightarrow> n = [] \<or> resultWebsite = Some n))"

definition getResults :: "(string \<times> cache_entry) list \<Rightarrow> string \<Rightarrow> string option \<Rightarrow> cache_entry list" where
  "getResults m skuId websiteName = map snd (filter (\<lambda>(k, v). keyMatches skuId websiteName k) m)"

text \<open>\<open>cleanup\<close>: delete every entry older than one day.\<close>

definition cleanup :: "time \<Rightarrow> (string \<times> cache_entry) list \<Rightarrow> (string \<times> cache_entry) list" where
  "cleanup now m = filter (\<lambda>(k, v). \<not> (c_timestamp v < now - 24 * 60 * 60 * 1000)) m"

subsection \<open>The scheduler\<close>

text \<open>
  \<open>start\<close> registers four cron jobs, each with a callback that calls
  \<open>scrapeByPriority\<close> (or \<open>cleanup\<close>) and returns at once, without waiting for the call
  to finish. \<open>cronFire\<close> is one firing of a job. \<open>scrapeByPriority\<close> tests only
  \<open>isRunning\<close> before it starts; \<open>scrapeByPriority_begin\<close> is the call up to that
  test, \<open>scrapeByPriority_end\<close> its return. \<open>stop\<close> also closes the scrapers'
  browsers, which are not part of this model.
\<close>

definition sm_start :: "scraper_state \<Rightarrow> scraper_state" where
  "sm_start st =
     (if sm_isRunning st then st
      else st\<lparr>sm_isRunning := True,
              cronJobs := [PriorityJob High, PriorityJob Medium, PriorityJob Low, CleanupJob]\<rparr>)"

definition sm_stop :: "scraper_state \<Rightarrow> scraper_state" where
  "sm_stop st = st\<lparr>sm_isRunning := False, cronJobs := []\<rparr>"

definition scrapeByPriority_begin :: "priority \<Rightarrow> scraper_state \<Rightarrow> scraper_state" where
  "scrapeByPriority_begin p st =
     (if \<not> sm_isRunning st then st else st\<lparr>inflight := inflight st @ [p]\<rparr>)"

definition scrapeByPriority_end :: "priority \<Rightarrow> scraper_state \<Rightarrow> scraper_state" where
  "scrapeByPriority_end p st = st\<lparr>inflight := remove1 p (inflight st)\<rparr>"

definition cronFire :: "time \<Rightarrow> cron_job \<Rightarrow> scraper_state \<Rightarrow> scraper_state" where
  "cronFire now j st =
     (if j \<notin> set (cronJobs st) then st
      else (case j of
              PriorityJob p \<Rightarrow> scrapeByPriority_begin p st
            | CleanupJob \<Rightarrow> st\<lparr>results := cleanup now (results st)\<rparr>))"

text \<open>
  What can happen to the scheduler, each with the time at which it happens: \<open>start\<close>
  and \<open>stop\<close>, a cron job firing, the timer that \<open>start\<close> sets for a first
  high-priority scrape five seconds later, and a call of \<open>scrapeByPriority\<close> returning.
\<close>

datatype sm_event = SmStart | SmStop | CronFire cron_job | StartupTimer | TickReturns priority

fun sm_step :: "time \<times> sm_event \<Rightarrow> scraper_state \<Rightarrow> scraper_state" where
  "sm_step (now, SmStart) st = sm_start st"
| "sm_step (now, SmStop) st = sm_stop st"
| "sm_step (now, CronFire j) st = cronFire now j st"
| "sm_step (now, StartupTimer) st = scrapeByPriority_begin High st"
| "sm_step (now, TickReturns p) st = scrapeByPriority_end p st"

definition sm_run :: "(time \<times> sm_event) list \<Rightarrow> scraper_state \<Rightarrow> scraper_state" where
  "sm_run es st = fold sm_step es st"

text \<open>The state the constructor builds.\<close>

definition newScraperManager :: scraper_state where
  "newScraperManager =
     \<lparr>sm_isRunning = False, cronJobs = [], inflight = [], results = [], db = [], alerts = []\<rparr>"

section \<open>Purchasers and the purchase manager (src/purchaser/basePurchaser.js)\<close>

subsection \<open>BasePurchaser\<close>

text \<open>
  A purchaser holds a cancellation flag and a browser: the field \<open>browser\<close> is the
  browser that \<open>initBrowser\<close> launched last. \<open>closeBrowser\<close> closes the browser when
  there is one; \<open>cancel\<close> sets the flag and closes the browser. Nothing clears the
  flag. Every blocking helper of the class (\<open>randomDelay\<close>, \<open>navigateWithRetry\<close>,
  \<open>fillField\<close>, \<open>clickWithRetry\<close>, \<open>waitForNavigation\<close>) starts with the same test of
  the flag, \<open>checkpoint\<close>, and throws when it is set.
\<close>

datatype browser = NoBrowser | BrowserOpen | BrowserClosed

record purchaser =
  isCancelled :: bool
  browser :: browser

definition newPurchaser :: purchaser where
  "newPurchaser = \<lparr>isCancelled = False, browser = NoBrowser\<rparr>"

definition initBrowser :: "purchaser \<Rightarrow> purchaser" where
  "initBrowser ps = ps\<lparr>browser := BrowserOpen\<rparr>"

definition closeBrowser :: "purchaser \<Rightarrow> purchaser" where
  "closeBrowser ps = (if browser ps = NoBrowser then ps else ps\<lparr>browser := BrowserClosed\<rparr>)"

definition cancel :: "purchaser \<Rightarrow> purchaser" where
  "cancel ps = closeBrowser (ps\<lparr>isCancelled := True\<rparr>)"

definition checkpoint :: "purchaser \<Rightarrow> string + unit" where
  "checkpoint ps = (if isCancelled ps then Inl ''Purchase cancelled'' else Inr ())"

subsection \<open>PurchaseManager\<close>

text \<open>
  The functions of the manager are asynchronous: wherever one of them waits (\<open>await\<close>),
  other callbacks run. A call of \<open>processPendingPurchases\<close> or \<open>retryFailedPurchases\<close>
  that has fetched its documents is a \<open>worker\<close>: it holds its own in-memory copies of
  the documents (\<open>queue\<close>) and hands them to \<open>processPurchase\<close> one after the other.
  \<open>current\<close> is the document that \<open>processPurchase\<close> is working on, and \<open>phase\<close> says
  what \<open>processPurchase\<close> is waiting for: for the save of the status \<open>processing\<close>
  (\<open>Saving\<close>); for the credit card and the purchaser (\<open>Executing\<close>); or for
  \<open>handlePurchaseSuccess\<close> or \<open>handlePurchaseError\<close>, which has saved the outcome and
  goes on to send the mail and to save a second time (\<open>Handling\<close>).
\<close>

datatype job = PendingJob | RetryJob

datatype phase = Saving | Executing | Handling

record worker =
  job :: job
  current :: "purchase option"
  phase :: phase
  queue :: "purchase list"

text \<open>
  \<open>activePurchases\<close> maps a purchase id to the purchaser that executes it; the
  purchasers are the three objects the constructor creates, one per website, so the
  map's values are given as website names.
\<close>

record manager =
  pm_isRunning :: bool
  activePurchases :: "(nat \<times> string) list"
  purchasers :: "(string \<times> purchaser) list"
  purchases :: "purchase list"
  workers :: "worker list"

definition maxConcurrentPurchases :: nat where
  "maxConcurrentPurchases = 3"

definition newManager :: manager where
  "newManager =
     \<lparr>pm_isRunning = False, activePurchases = [],
      purchasers = [(''target'', newPurchaser), (''bestbuy'', newPurchaser),
                    (''pokemoncenter'', newPurchaser)],
      purchases = [], workers = []\<rparr>"

text \<open>\<open>Map.prototype.delete\<close>.\<close>

definition map_delete :: "'k \<Rightarrow> ('k \<times> 'v) list \<Rightarrow> ('k \<times> 'v) list" where
  "map_delete k m = filter (\<lambda>(k', v). k' \<noteq> k) m"

text \<open>
  \<open>purchase.save()\<close> on a document that was fetched or saved as \<open>old\<close> and is now
  \<open>new\<close>: Mongoose writes the paths that were changed since, and pushes the elements
  appended to \<open>errors\<close>; the other paths of the stored document stay as they are.
  \<open>saveDoc\<close> is that update of the stored document, \<open>save\<close> applies it to the document
  of the collection that has the id. Every path of the schema, \<open>errors\<close> included, is
  taken as an ordinary path, and the populated references of a document (\<open>sku\<close>,
  \<open>createdBy\<close>) as present, so that the log lines that read them do not throw.
\<close>

definition saveDoc :: "purchase \<Rightarrow> purchase \<Rightarrow> purchase \<Rightarrow> purchase" where
  "saveDoc old new q =
     q\<lparr>p_status := (if p_status new = p_status old then p_status q else p_status new),
       attemptNumber :=
         (if attemptNumber new = attemptNumber old then attemptNumber q else attemptNumber new),
       lastAttempt :=
         (if lastAttempt new = lastAttempt old then lastAttempt q else lastAttempt new),
       p_errors := p_errors q @ drop (length (p_errors old)) (p_errors new),
       orderId := (if orderId new = orderId old then orderId q else orderId new),
       transactionId :=
         (if transactionId new = transactionId old then transactionId q
          else transactionId new)\<rparr>"

definition save :: "purchase \<Rightarrow> purchase \<Rightarrow> purchase list \<Rightarrow> purchase list" where
  "save old new d = map (\<lambda>q. if pid q = pid new then saveDoc old new q else q) d"

text \<open>The query of \<open>processPendingPurchases\<close>: status \<open>pending\<close>, attempt number at most
  3, oldest first, at most \<open>n\<close> documents.\<close>

definition findPending :: "nat \<Rightarrow> purchase list \<Rightarrow> purchase list" where
  "findPending n d =
     take n (sort_key createdAt (filter (\<lambda>q. p_status q = Pending \<and> attemptNumber q \<le> 3) d))"

text \<open>The query of \<open>retryFailedPurchases\<close>: status \<open>pending\<close>, attempt number 2 or 3, last
  attempt more than ten minutes ago.\<close>

definition findRetry :: "time \<Rightarrow> purchase list \<Rightarrow> purchase list" where
  "findRetry now d =
     filter (\<lambda>q. p_status q = Pending \<and> 2 \<le> attemptNumber q \<and> attemptNumber q \<le> 3 \<and>
                 lastAttempt q < now - 10 * 60 * 1000) d"

text \<open>
  \<open>handlePurchaseError\<close>: push an error record, increment the attempt number, set the
  status to \<open>failed\<close> when the number now exceeds \<open>maxAttempts\<close> and to \<open>pending\<close>
  otherwise, save. The result is the in-memory document and the collection.
  When the user has email notifications on, the function goes on to send the failure
  mail and to save a second time, which writes the \<open>notifications\<close> of the document
  and nothing else; it returns after that.
\<close>

definition handlePurchaseError ::
  "purchase \<Rightarrow> string \<Rightarrow> time \<Rightarrow> purchase list \<Rightarrow> purchase \<times> purchase list" where
  "handlePurchaseError p errorMessage now d =
     (let p1 = p\<lparr>p_errors := p_errors p @
                   [\<lparr>err_message = errorMessage, err_timestamp = now,
                     err_code = ''PURCHASE_FAILED'', err_severity = ''high''\<rparr>]\<rparr>;
          p2 = p1\<lparr>attemptNumber := attemptNumber p1 + 1\<rparr>;
          p3 = (if attemptNumber p2 > maxAttempts p2 then p2\<lparr>p_status := Failed\<rparr>
                else p2\<lparr>p_status := Pending\<rparr>)
      in (p3, save p p3 d))"

text \<open>\<open>handlePurchaseSuccess\<close>: set the status and the order and payment fields, save;
  then the success mail and the second save, as above.\<close>

definition handlePurchaseSuccess ::
  "purchase \<Rightarrow> string \<Rightarrow> string \<Rightarrow> purchase list \<Rightarrow> purchase \<times> purchase list" where
  "handlePurchaseSuccess p oid tid d =
     (let p1 = p\<lparr>p_status := Success, orderId := Some oid, transactionId := Some tid\<rparr>
      in (p1, save p p1 d))"

text \<open>
  \<open>processPurchase\<close> is given in the four parts between which it waits.
  \<open>processPurchase_begin\<close> runs up to \<open>await purchase.save()\<close>: it throws when the
  website has no purchaser, and otherwise sets the status to \<open>processing\<close>, stamps
  \<open>lastAttempt\<close> and saves.
  \<open>processPurchase_register\<close> runs when the save has returned: it enters the purchase
  into \<open>activePurchases\<close>; then the function looks up the credit card and calls the
  purchaser.
  \<open>processPurchase_result\<close> runs when the purchaser has reported success, or when it
  (or the card lookup) has failed with a message: it calls \<open>handlePurchaseSuccess\<close> or
  \<open>handlePurchaseError\<close>, which saves the outcome.
  \<open>processPurchase_finally\<close> runs when that handler has returned: the purchase
  leaves \<open>activePurchases\<close>.
\<close>

datatype outcome = Succeeded string string | FailedWith string

definition processPurchase_begin ::
  "time \<Rightarrow> purchase \<Rightarrow> manager \<Rightarrow> string + purchase \<times> manager" where
  "processPurchase_begin now p m =
     (case map_of (purchasers m) (p_website p) of
        None \<Rightarrow> Inl (''No purchaser found for website: '' @ p_website p)
      | Some purchaser \<Rightarrow>
          (let p' = p\<lparr>p_status := Processing, lastAttempt := now\<rparr>
           in Inr (p', m\<lparr>purchases := save p p' (purchases m)\<rparr>)))"

definition processPurchase_register :: "purchase \<Rightarrow> manager \<Rightarrow> manager" where
  "processPurchase_register p m =
     m\<lparr>activePurchases := map_set (pid p) (p_website p) (activePurchases m)\<rparr>"

definition processPurchase_result ::
  "time \<Rightarrow> outcome \<Rightarrow> purchase \<Rightarrow> manager \<Rightarrow> purchase \<times> manager" where
  "processPurchase_result now out p m =
     (case out of
        Succeeded oid tid \<Rightarrow>
          (fst (handlePurchaseSuccess p oid tid (purchases m)),
           m\<lparr>purchases := snd (handlePurchaseSuccess p oid tid (purchases m))\<rparr>)
      | FailedWith msg \<Rightarrow>
          (fst (handlePurchaseError p msg now (purchases m)),
           m\<lparr>purchases := snd (handlePurchaseError p msg now (purchases m))\<rparr>))"

definition processPurchase_finally :: "purchase \<Rightarrow> manager \<Rightarrow> manager" where
  "processPurchase_finally p m =
     m\<lparr>activePurchases := map_delete (pid p) (activePurchases m)\<rparr>"

text \<open>
  \<open>processPendingPurchases\<close> up to the end of its query: nothing happens when the
  manager is not running, when \<open>activePurchases\<close> is full, or when no document is
  found; otherwise the call goes on as a worker over the documents found.
\<close>

definition processPendingPurchases :: "manager \<Rightarrow> manager" where
  "processPendingPurchases m =
     (if \<not> pm_isRunning m then m
      else if length (activePurchases m) \<ge> maxConcurrentPurchases then m
      else (let pendingPurchases =
                  findPending (maxConcurrentPurchases - length (activePurchases m)) (purchases m)
            in if pendingPurchases = [] then m
               else m\<lparr>workers := workers m @
                        [\<lparr>job = PendingJob, current = None, phase = Saving,
                          queue = pendingPurchases\<rparr>]\<rparr>))"

definition retryFailedPurchases :: "time \<Rightarrow> manager \<Rightarrow> manager" where
  "retryFailedPurchases now m =
     (if \<not> pm_isRunning m then m
      else (let retryPurchases = findRetry now (purchases m)
            in if retryPurchases = [] then m
               else m\<lparr>workers := workers m @
                        [\<lparr>job = RetryJob, current = None, phase = Saving,
                          queue = retryPurchases\<rparr>]\<rparr>))"

text \<open>
  One turn of a worker's loop, up to the save in \<open>processPurchase\<close>.
  The loop of \<open>processPendingPurchases\<close> calls \<open>processPurchase\<close> on its next document,
  whatever \<open>activePurchases\<close> holds by now, and hands an exception to
  \<open>handlePurchaseError\<close>. The loop of \<open>retryFailedPurchases\<close> calls it only while
  \<open>activePurchases\<close> has room, and an exception ends the loop.
\<close>

definition advance :: "time \<Rightarrow> nat \<Rightarrow> manager \<Rightarrow> manager" where
  "advance now n m =
     (if n \<ge> length (workers m) then m
      else (let w = workers m ! n in
        case (current w, queue w) of
          (None, p # rest) \<Rightarrow>
            (case job w of
               PendingJob \<Rightarrow>
                 (case processPurchase_begin now p m of
                    Inl msg \<Rightarrow>
                      m\<lparr>purchases := snd (handlePurchaseError p msg now (purchases m)),
                        workers := (workers m)[n := w\<lparr>queue := rest\<rparr>]\<rparr>
                  | Inr (p', m') \<Rightarrow>
                      m'\<lparr>workers :=
                           (workers m')[n := w\<lparr>current := Some p', phase := Saving,
                                                queue := rest\<rparr>]\<rparr>)
             | RetryJob \<Rightarrow>
                 (if length (activePurchases m) < maxConcurrentPurchases then
                    (case processPurchase_begin now p m of
                       Inl msg \<Rightarrow> m\<lparr>workers := (workers m)[n := w\<lparr>queue := []\<rparr>]\<rparr>
                     | Inr (p', m') \<Rightarrow>
                         m'\<lparr>workers :=
                              (workers m')[n := w\<lparr>current := Some p', phase := Saving,
                                                   queue := rest\<rparr>]\<rparr>)
                  else m\<lparr>workers := (workers m)[n := w\<lparr>queue := rest\<rparr>]\<rparr>))
        | _ \<Rightarrow> m))"

text \<open>The save of worker \<open>n\<close> has returned: \<open>processPurchase\<close> registers the purchase
  and goes on to the credit card and the purchaser.\<close>

definition saveReturns :: "nat \<Rightarrow> manager \<Rightarrow> manager" where
  "saveReturns n m =
     (if n \<ge> length (workers m) then m
      else (let w = workers m ! n in
        case current w of
          None \<Rightarrow> m
        | Some p \<Rightarrow>
            if phase w = Saving
            then (processPurchase_register p m)
                   \<lparr>workers := (workers m)[n := w\<lparr>phase := Executing\<rparr>]\<rparr>
            else m))"

text \<open>
  Of the three purchasers only the one of Target drives a browser: its
  \<open>executePurchase\<close> starts with \<open>initBrowser\<close>, goes through the checkout with the
  helpers of the base class, and calls \<open>closeBrowser\<close> before it returns its result,
  a success or a failure. The purchasers of Best Buy and of the Pokemon Center wait
  two seconds and return a success; they launch no browser and call no helper. The
  purchaser of a website is one object, shared by all the purchases of that website.
\<close>

definition drivesBrowser :: "string \<Rightarrow> bool" where
  "drivesBrowser site = (site = ''target'')"

definition onPurchaser ::
  "(purchaser \<Rightarrow> purchaser) \<Rightarrow> string \<Rightarrow> (string \<times> purchaser) list \<Rightarrow> (string \<times> purchaser) list" where
  "onPurchaser f site ps = map (\<lambda>(n, x). if n = site then (n, f x) else (n, x)) ps"

text \<open>The purchaser that worker \<open>n\<close> has called launches its browser
  (\<open>executePurchase_initBrowser\<close>), or closes it before it returns
  (\<open>executePurchase_closeBrowser\<close>).\<close>

definition executePurchase_initBrowser :: "nat \<Rightarrow> manager \<Rightarrow> manager" where
  "executePurchase_initBrowser n m =
     (if n \<ge> length (workers m) then m
      else (let w = workers m ! n in
        case current w of
          None \<Rightarrow> m
        | Some p \<Rightarrow>
            if phase w = Executing \<and> drivesBrowser (p_website p)
            then m\<lparr>purchasers := onPurchaser initBrowser (p_website p) (purchasers m)\<rparr>
            else m))"

definition executePurchase_closeBrowser :: "nat \<Rightarrow> manager \<Rightarrow> manager" where
  "executePurchase_closeBrowser n m =
     (if n \<ge> length (workers m) then m
      else (let w = workers m ! n in
        case current w of
          None \<Rightarrow> m
        | Some p \<Rightarrow>
            if phase w = Executing \<and> drivesBrowser (p_website p)
            then m\<lparr>purchasers := onPurchaser closeBrowser (p_website p) (purchasers m)\<rparr>
            else m))"

text \<open>The purchaser of worker \<open>n\<close> returns, or the card lookup fails: \<open>processPurchase\<close>
  has the result handled. The worker's document is now the one the handler changed.\<close>

definition purchaserReturns :: "time \<Rightarrow> nat \<Rightarrow> outcome \<Rightarrow> manager \<Rightarrow> manager" where
  "purchaserReturns now n out m =
     (if n \<ge> length (workers m) then m
      else (let w = workers m ! n in
        case current w of
          None \<Rightarrow> m
        | Some p \<Rightarrow>
            if phase w = Executing
            then (case processPurchase_result now out p m of
                    (p', m') \<Rightarrow>
                      m'\<lparr>workers :=
                           (workers m)[n := w\<lparr>current := Some p', phase := Handling\<rparr>]\<rparr>)
            else m))"

text \<open>The handler of worker \<open>n\<close> returns: the \<open>finally\<close> block of \<open>processPurchase\<close>
  runs, and the worker is back in its loop.\<close>

definition handlerReturns :: "nat \<Rightarrow> manager \<Rightarrow> manager" where
  "handlerReturns n m =
     (if n \<ge> length (workers m) then m
      else (let w = workers m ! n in
        case current w of
          None \<Rightarrow> m
        | Some p \<Rightarrow>
            if phase w = Handling
            then (processPurchase_finally p m)
                   \<lparr>workers := (workers m)[n := w\<lparr>current := None\<rparr>]\<rparr>
            else m))"

text \<open>\<open>purchaser.cancel()\<close> on the purchaser of a website.\<close>

definition cancelPurchaser :: "string \<Rightarrow> (string \<times> purchaser) list \<Rightarrow> (string \<times> purchaser) list" where
  "cancelPurchaser site ps = map (\<lambda>(n, x). if n = site then (n, cancel x) else (n, x)) ps"

text \<open>
  \<open>cancelPurchase\<close>: an unknown id and a purchase that is \<open>success\<close> or \<open>cancelled\<close> are
  errors, thrown before anything is changed. Otherwise the status becomes
  \<open>cancelled\<close> and, when \<open>activePurchases\<close> has the id, its purchaser is cancelled and
  the id removed. The function waits for the document, for the save and for the
  purchaser's browser to close; it is taken as one step.
\<close>

definition cancelPurchase :: "nat \<Rightarrow> manager \<Rightarrow> string + purchase \<times> manager" where
  "cancelPurchase purchaseId m =
     (case find (\<lambda>q. pid q = purchaseId) (purchases m) of
        None \<Rightarrow> Inl ''Purchase not found''
      | Some p \<Rightarrow>
          if p_status p = Success \<or> p_status p = Cancelled
          then Inl ''Cannot cancel completed or already cancelled purchase''
          else (let p' = p\<lparr>p_status := Cancelled\<rparr>;
                    m1 = m\<lparr>purchases := save p p' (purchases m)\<rparr>
                in case map_of (activePurchases m1) purchaseId of
                     None \<Rightarrow> Inr (p', m1)
                   | Some site \<Rightarrow>
                       Inr (p', m1\<lparr>purchasers := cancelPurchaser site (purchasers m1),
                                   activePurchases :=
                                     map_delete purchaseId (activePurchases m1)\<rparr>)))"

definition pm_start :: "manager \<Rightarrow> manager" where
  "pm_start m = (if pm_isRunning m then m else m\<lparr>pm_isRunning := True\<rparr>)"

text \<open>\<open>stop\<close>: cancel the purchaser of every active purchase, then clear the map.\<close>

definition pm_stop :: "manager \<Rightarrow> manager" where
  "pm_stop m =
     m\<lparr>pm_isRunning := False,
       purchasers := fold (\<lambda>(i, site). cancelPurchaser site) (activePurchases m) (purchasers m),
       activePurchases := []\<rparr>"

text \<open>
  What can happen to the manager, each with the time at which it happens: \<open>start\<close> and
  \<open>stop\<close>; the scraper manager's \<open>triggerAutoPurchase\<close> writing to the collection; a
  call of \<open>processPendingPurchases\<close> (by the thirty-second job, or by the timer that
  \<open>start\<close> sets to two seconds) or of \<open>retryFailedPurchases\<close> (by the ten-minute job);
  the steps of a worker, which are a turn of its loop (\<open>Advance\<close>), the return of the
  save (\<open>Register\<close>), the purchaser launching and closing its browser (\<open>Launch\<close>,
  \<open>Close\<close>), the result of the attempt (\<open>Complete\<close>) and the return of the handler
  (\<open>Release\<close>); and \<open>cancelPurchase\<close> (whose error the caller receives; the manager is
  then unchanged). A step that a worker is not waiting for changes nothing.
  The jobs fire whether or not an earlier call has returned, since their callbacks do
  not wait for it. The result of an attempt is given with \<open>Complete\<close>, and every
  result is possible.
\<close>

datatype event =
    Start | Stop
  | Trigger sku website scrape_result
  | TickPending | TickRetry
  | Advance nat
  | Register nat
  | Launch nat
  | Close nat
  | Complete nat outcome
  | Release nat
  | Cancel nat

fun step :: "time \<times> event \<Rightarrow> manager \<Rightarrow> manager" where
  "step (now, Start) m = pm_start m"
| "step (now, Stop) m = pm_stop m"
| "step (now, Trigger s w r) m = m\<lparr>purchases := triggerAutoPurchase s w r now (purchases m)\<rparr>"
| "step (now, TickPending) m = processPendingPurchases m"
| "step (now, TickRetry) m = retryFailedPurchases now m"
| "step (now, Advance n) m = advance now n m"
| "step (now, Register n) m = saveReturns n m"
| "step (now, Launch n) m = executePurchase_initBrowser n m"
| "step (now, Close n) m = executePurchase_closeBrowser n m"
| "step (now, Complete n out) m = purchaserReturns now n out m"
| "step (now, Release n) m = handlerReturns n m"
| "step (now, Cancel i) m = (case cancelPurchase i m of Inl e \<Rightarrow> m | Inr (p, m') \<Rightarrow> m')"

definition run :: "(time \<times> event) list \<Rightarrow> manager \<Rightarrow> manager" where
  "run es m = fold step es m"

section \<open>Automated purchase bot (src/purchaser/automatedPurchaseBot.js)\<close>

text \<open>
  The bot works on the test storage (src/utils/testStorage.js), not on the Purchase
  collection: its SKUs, credit cards and purchases are plain objects.
\<close>

record bot_sku =
  bs_id :: string
  bs_name :: string
  bs_targetPrice :: rat
  bs_maxPrice :: rat

record credit_card =
  cardName :: string
  isDefault :: bool

text \<open>What \<open>getMarketPrice\<close> returns.\<close>

record market_data =
  md_price :: rat
  md_inStock :: bool
  realData :: bool
  md_source :: string

text \<open>What \<open>generateWebsiteUrl\<close> returns: an object with these three URLs, for every
  website name. The URLs are strings built from the website and the SKU; the model
  takes them as given.\<close>

record url_data =
  productUrl :: string
  displayUrl :: string
  searchUrl :: string

text \<open>A purchase of the test storage, as \<open>executeAutomatedPurchase\<close> builds it.\<close>

record bot_purchase =
  bp_id :: nat
  bp_createdBy :: string
  bp_sku :: string
  bp_website :: string
  bp_url :: string
  bp_status :: status
  bp_price :: rat
  bp_quantity :: int
  bp_total :: rat
  bp_creditCardUsed :: string
  bp_automatedPurchase :: bool
  bp_dataSource :: string
  bp_checkType :: string
  bp_realScraping :: bool
  bp_createdAt :: time

record bot =
  realScrapingEnabled :: bool
  purchaseAttempts :: "(string \<times> time) list"
  testPurchases :: "bot_purchase list"

text \<open>
  The three calls of \<open>Math.random()\<close> that one simulation makes, in the order it makes
  them: the draw that decides whether the price is a good deal, the draw that places
  the price, the draw that decides the stock. Each is a number in [0, 1). The bot has
  two simulations, its own (\<open>simulateMarketData\<close>) and the one of the live testing
  system (\<open>fallbackSimulation\<close>); each makes its own three draws.
\<close>

record draws =
  d_deal :: rat
  d_price :: rat
  d_stock :: rat

text \<open>\<open>parseFloat(x.toFixed(2))\<close>: \<open>x\<close> rounded to two decimals, halves away from zero.
  The model computes in exact rationals where JavaScript computes in doubles.\<close>

definition toFixed2 :: "rat \<Rightarrow> rat" where
  "toFixed2 x =
     (if x < 0 then - (of_int \<lfloor>- x * 100 + 1 / 2\<rfloor> / 100)
      else of_int \<lfloor>x * 100 + 1 / 2\<rfloor> / 100)"

definition simulateMarketPrice :: "rat \<Rightarrow> rat \<Rightarrow> draws \<Rightarrow> rat" where
  "simulateMarketPrice target maxp dr =
     (let isGoodDeal = d_deal dr < 7 / 10
      in if isGoodDeal
         then toFixed2 (d_price dr * (target - target * (8 / 10)) + target * (8 / 10))
         else toFixed2 (d_price dr * (maxp - target) + target))"

definition simulateMarketData :: "rat \<Rightarrow> rat \<Rightarrow> string \<Rightarrow> draws \<Rightarrow> market_data" where
  "simulateMarketData target maxp site dr =
     \<lparr>md_price = simulateMarketPrice target maxp dr, md_inStock = (d_stock dr > 2 / 10),
      realData = False, md_source = site\<rparr>"

subsection \<open>The live testing system (src/utils/liveTestingSystem.js)\<close>

text \<open>What \<open>scrapeRealPrice\<close> returns: the fields that \<open>getMarketPrice\<close> reads, and the
  mark \<open>simulated\<close>.\<close>

record live_result =
  lr_success :: bool
  lr_price :: "rat option"
  lr_inStock :: bool
  lr_simulated :: bool

definition simulateReasonablePrice :: "rat \<Rightarrow> rat \<Rightarrow> draws \<Rightarrow> rat" where
  "simulateReasonablePrice target maxp dr =
     (let isGoodDeal = d_deal dr < 6 / 10
      in if isGoodDeal
         then (let minPrice = target * (7 / 10)
               in toFixed2 (d_price dr * (target - minPrice) + minPrice))
         else toFixed2 (d_price dr * (maxp - target) + target))"

text \<open>\<open>fallbackSimulation\<close>: a result with \<open>success\<close> set, a simulated price and a
  simulated stock.\<close>

definition fallbackSimulation :: "rat \<Rightarrow> rat \<Rightarrow> draws \<Rightarrow> live_result" where
  "fallbackSimulation target maxp dr =
     \<lparr>lr_success = True, lr_price = Some (simulateReasonablePrice target maxp dr),
      lr_inStock = (d_stock dr > 2 / 10), lr_simulated = True\<rparr>"

text \<open>
  \<open>scrapeRealPrice\<close>, from the point where the scraper has answered. The scrapers are
  those of a scraper manager. A website without a scraper gives a result without
  \<open>success\<close> and without a price. A scraper's result with \<open>success\<close> set is passed on.
  When the scraper's result has no \<open>success\<close>, and when the scraper (or anything else
  in the function) throws, the function returns the fallback simulation. It throws
  nothing itself.
\<close>

definition scrapeRealPrice :: "bot_sku \<Rightarrow> string \<Rightarrow> probe \<Rightarrow> draws \<Rightarrow> live_result" where
  "scrapeRealPrice s site pr dr =
     (if site \<notin> set scrapers
      then \<lparr>lr_success = False, lr_price = None, lr_inStock = False, lr_simulated = False\<rparr>
      else (case pr of
              Returned r \<Rightarrow>
                if success r
                then \<lparr>lr_success = True, lr_price = price r, lr_inStock = inStock r,
                      lr_simulated = False\<rparr>
                else fallbackSimulation (bs_targetPrice s) (bs_maxPrice s) dr
            | Thrown e \<Rightarrow> fallbackSimulation (bs_targetPrice s) (bs_maxPrice s) dr))"

subsection \<open>The bot\<close>

text \<open>
  \<open>getMarketPrice\<close>: with real scraping enabled, the answer of \<open>scrapeRealPrice\<close> is used
  when it has \<open>success\<close> set and a truthy price, and is then marked as real data; when
  it has not, and when real scraping is disabled, the market data are simulated by
  the bot. (The function also simulates when \<open>scrapeRealPrice\<close> throws, which it does
  not.) \<open>live\<close> are the draws of the live testing system, \<open>dr\<close> those of the bot.
\<close>

definition getMarketPrice ::
  "bot \<Rightarrow> bot_sku \<Rightarrow> string \<Rightarrow> probe \<Rightarrow> draws \<Rightarrow> draws \<Rightarrow> market_data" where
  "getMarketPrice b s site pr live dr =
     (if realScrapingEnabled b then
        (let scrapingResult = scrapeRealPrice s site pr live
         in case lr_price scrapingResult of
              Some p \<Rightarrow>
                if lr_success scrapingResult \<and> p \<noteq> 0
                then \<lparr>md_price = p, md_inStock = lr_inStock scrapingResult, realData = True,
                      md_source = site\<rparr>
                else simulateMarketData (bs_targetPrice s) (bs_maxPrice s) site dr
            | None \<Rightarrow> simulateMarketData (bs_targetPrice s) (bs_maxPrice s) site dr)
      else simulateMarketData (bs_targetPrice s) (bs_maxPrice s) site dr)"

text \<open>
  \<open>executeAutomatedPurchase\<close>: choose the default card, or the first one; build the
  purchase record, with status \<open>success\<close> and quantity 1; add it to the test storage
  and return it. With no card at all the access \<open>defaultCard.cardName\<close> throws; the
  exception is caught and the function returns \<open>false\<close> (here \<open>None\<close>), the storage
  untouched. No purchaser is involved.
\<close>

definition executeAutomatedPurchase ::
  "user \<Rightarrow> bot_sku \<Rightarrow> credit_card list \<Rightarrow> string \<Rightarrow> rat \<Rightarrow> string \<Rightarrow> market_data option \<Rightarrow>
   url_data \<Rightarrow> time \<Rightarrow> bot_purchase list \<Rightarrow> bot_purchase option \<times> bot_purchase list" where
  "executeAutomatedPurchase u s creditCards site pricePaid checkType marketData urlData now store =
     (let chosen = (case find isDefault creditCards of
                      Some c \<Rightarrow> Some c
                    | None \<Rightarrow> (case creditCards of [] \<Rightarrow> None | c # _ \<Rightarrow> Some c));
          isReal = (case marketData of None \<Rightarrow> False | Some md \<Rightarrow> realData md);
          dataSource = (if isReal then ''scraped'' else ''simulated'');
          websiteUrl = (if displayUrl urlData \<noteq> [] then displayUrl urlData
                        else productUrl urlData)
      in case chosen of
           None \<Rightarrow> (None, store)
         | Some defaultCard \<Rightarrow>
             (let purchase =
                    \<lparr>bp_id = length store, bp_createdBy = u_id u, bp_sku = bs_id s,
                     bp_website = site, bp_url = websiteUrl, bp_status = Success,
                     bp_price = pricePaid, bp_quantity = 1, bp_total = pricePaid,
                     bp_creditCardUsed = cardName defaultCard, bp_automatedPurchase = True,
                     bp_dataSource = dataSource, bp_checkType = checkType,
                     bp_realScraping = isReal, bp_createdAt = now\<rparr>
              in (Some purchase, store @ [purchase])))"

text \<open>
  One turn of the loop of \<open>checkSKUForPurchase\<close>, for one website: get the market price;
  when it is at most the target price and the product is in stock, and no purchase of
  this SKU at this website was made in the last five minutes, execute the purchase
  and, when it returned a record, note the time under the key of the pair.
\<close>

definition checkWebsite ::
  "user \<Rightarrow> bot_sku \<Rightarrow> credit_card list \<Rightarrow> string \<Rightarrow> string \<Rightarrow> probe \<Rightarrow> draws \<Rightarrow> draws \<Rightarrow>
   url_data \<Rightarrow> time \<Rightarrow> bot \<Rightarrow> bot" where
  "checkWebsite u s creditCards checkType site pr live dr urlData now b =
     (let marketData = getMarketPrice b s site pr live dr;
          marketPrice = md_price marketData
      in if marketPrice \<le> bs_targetPrice s \<and> md_inStock marketData then
           (let attemptKey = bs_id s @ ''-'' @ site;
                cooling = (case map_of (purchaseAttempts b) attemptKey of
                             None \<Rightarrow> False
                           | Some t \<Rightarrow> t \<noteq> 0 \<and> now - t < 300000)
            in if cooling then b
               else (case executeAutomatedPurchase u s creditCards site marketPrice checkType
                            (Some marketData) urlData now (testPurchases b) of
                       (None, store) \<Rightarrow> b\<lparr>testPurchases := store\<rparr>
                     | (Some purchase, store) \<Rightarrow>
                         b\<lparr>testPurchases := store,
                           purchaseAttempts := map_set attemptKey now (purchaseAttempts b)\<rparr>))
         else b)"

section \<open>Observations and example values\<close>

text \<open>A probe makes the scraper manager buy when it leaves a new document in the
  Purchase collection.\<close>

definition buys :: "sku \<Rightarrow> website \<Rightarrow> probe \<Rightarrow> time \<Rightarrow> scraper_state \<Rightarrow> bool" where
  "buys s w pr now st = (db (scrapeSingleProduct s w pr now st) \<noteq> db st)"

text \<open>The purchases of an (item, retailer) pair that are pending or processing.\<close>

definition openPurchases :: "string \<Rightarrow> string \<Rightarrow> purchase list \<Rightarrow> purchase list" where
  "openPurchases i r d =
     filter (\<lambda>q. p_sku q = i \<and> p_website q = r \<and>
                 (p_status q = Pending \<or> p_status q = Processing)) d"

text \<open>
  The keys of the \<open>results\<close> map are built from an ObjectId (24 hexadecimal digits) and
  a website name of the schema's enumeration; neither contains an underscore. A map
  whose keys were built that way has one underscore in every key, and one entry per
  key.
\<close>

definition us_free :: "string \<Rightarrow> bool" where
  "us_free x = (CHR ''_'' \<notin> set x)"

definition wf_cache :: "(string \<times> cache_entry) list \<Rightarrow> bool" where
  "wf_cache m =
     (distinct (map fst m) \<and> (\<forall>k \<in> set (map fst m). length (split_on CHR ''_'' k) = 2))"

definition sku0 :: sku where
  "sku0 = \<lparr>sku_id = ''64a1f0'', sku_name = ''Booster Pack'', targetPrice = 25, maxQuantity = 1,
           autoPurchase = True, requireConfirmation = False,
           createdBy = Some \<lparr>u_id = ''u1'', u_email = ''ash@example.org''\<rparr>\<rparr>"

definition web0 :: website where
  "web0 = \<lparr>w_name = ''target'', w_url = ''https://www.target.com/p/A-1'', w_isActive = True\<rparr>"

definition web1 :: website where
  "web1 = \<lparr>w_name = ''bestbuy'', w_url = ''https://www.bestbuy.com/site/1.p'', w_isActive = True\<rparr>"

definition res0 :: "rat \<Rightarrow> scrape_result" where
  "res0 p = \<lparr>success = True, r_website = Some ''target'', price = Some p, inStock = True,
             r_error = None\<rparr>"

text \<open>The ids of the purchases that are in status \<open>processing\<close>.\<close>

definition processing :: "manager \<Rightarrow> nat list" where
  "processing m = map pid (filter (\<lambda>q. p_status q = Processing) (purchases m))"

text \<open>Status, attempt number and last attempt of every purchase, in the order of the
  collection.\<close>

definition attempts :: "manager \<Rightarrow> (status \<times> int \<times> time) list" where
  "attempts m = map (\<lambda>q. (p_status q, attemptNumber q, lastAttempt q)) (purchases m)"


definition mem_ok :: "purchase list \<Rightarrow> purchase \<Rightarrow> bool" where
  "mem_ok d p = (attemptNumber p \<le> maxAttempts p \<and> pid p < length d \<and>
                 (\<forall>q \<in> set d. pid q = pid p \<longrightarrow> maxAttempts q = maxAttempts p))"

definition worker_ok :: "purchase list \<Rightarrow> worker \<Rightarrow> bool" where
  "worker_ok d w =
     ((case current w of
         None \<Rightarrow> True
       | Some p \<Rightarrow> phase w = Handling \<or> (p_status p = Processing \<and> mem_ok d p)) \<and>
      (\<forall>p \<in> set (queue w). p_status p = Pending \<and> mem_ok d p))"


text \<open>
  In the traces below the manager is started at time 0, and the timer of \<open>start\<close> calls
  \<open>processPendingPurchases\<close> at two seconds, when no purchase is queued yet. The
  thirty-second job fires at 30 s, 60 s, and so on. A failure with the message of the
  card lookup is that of a user who has no card for the website. The steps of a
  purchaser's browser are left out where only the documents are observed.
\<close>



text \<open>
  Five purchases and five firings of the thirty-second job. Purchase 0 is at Target,
  whose purchaser drives a browser through the checkout; purchase 1 is at Best Buy,
  whose purchaser returns success after two seconds. The firing at 30 s fetches
  purchases 0 and 1 and starts on 0. The firing at 60 s fetches 1 and completes it.
  Purchases 2, 3 and 4 arrive; the firings at 90 s and 120 s start on 2 and 3.
  Purchase 0 completes just before 150 s, and the first call goes on to its second
  document, purchase 1, and saves it as \<open>processing\<close>. While that save is under way
  the job fires at 150 s: it finds two active purchases and fetches purchase 4. Then
  the save returns and purchase 1 is registered, and the last call starts on
  purchase 4.
\<close>

definition over_capacity :: "(time \<times> event) list" where
  "over_capacity =
     [(0, Start), (2000, TickPending),
      (5000, Trigger sku0 web0 (res0 20)),
      (6000, Trigger sku0 web1 (res0 20)),
      (30000, TickPending), (30010, Advance 0), (30020, Register 0),
      (60000, TickPending), (60010, Advance 1), (60020, Register 1),
      (62030, Complete 1 (Succeeded ''BB-62030'' ''TXN-62030'')), (62040, Release 1),
      (71000, Trigger sku0 web0 (res0 20)),
      (72000, Trigger sku0 web0 (res0 20)),
      (73000, Trigger sku0 web0 (res0 20)),
      (90000, TickPending), (90010, Advance 2), (90020, Register 2),
      (120000, TickPending), (120010, Advance 3), (120020, Register 3),
      (149980, Complete 0 (Succeeded ''order-0'' ''txn-0'')), (149990, Release 0),
      (149995, Advance 0),
      (150000, TickPending),
      (150005, Register 0),
      (150010, Advance 4), (150020, Register 4)]"

text \<open>
  One purchase at Target, of a user who has email notifications on. Its first
  attempt, started by the firing at 30 s, fails at 58 s, when the product page has
  not shown its title within fifteen seconds: the purchaser closes its browser and
  returns the failure, and \<open>handlePurchaseError\<close> saves the purchase as \<open>pending\<close>
  and sends the failure mail. While the mail is being sent
  the job fires at 60 s; the purchase is still registered, so one place is taken, and
  the query finds the purchase pending. The second call saves it as \<open>processing\<close> and
  registers it, under the key that it has already. Then the mail is out, the handler
  of the first call returns and its \<open>finally\<close> block deletes the key. The purchaser,
  called a second time, launches its browser.
\<close>

definition unregistered :: "(time \<times> event) list" where
  "unregistered =
     [(0, Start), (2000, TickPending),
      (5000, Trigger sku0 web0 (res0 20)),
      (30000, TickPending), (30010, Advance 0), (30020, Register 0), (30500, Launch 0),
      (58000, Close 0),
      (58010, Complete 0 (FailedWith ''waiting for selector failed: timeout 15000ms exceeded'')),
      (60000, TickPending), (60010, Advance 1), (60020, Register 1),
      (60500, Release 0),
      (61000, Launch 1)]"

text \<open>How the second attempt of that purchase ends when nothing stops it.\<close>

definition second_attempt :: "(time \<times> event) list" where
  "second_attempt =
     [(125000, Close 1), (125010, Complete 1 (Succeeded ''order-0'' ''txn-0'')),
      (125020, Release 1)]"

text \<open>A purchase that has been queued and fetched by the first firing of the
  thirty-second job, and its document.\<close>

definition queued :: "(time \<times> event) list" where
  "queued =
     [(0, Start), (2000, TickPending), (5000, Trigger sku0 web0 (res0 20)),
      (30000, TickPending)]"

definition purchase0 :: purchase where
  "purchase0 = newPurchase sku0 web0 20 5000 0"

text \<open>A purchase whose first attempt, started at 30 s, fails and which the next firing
  of the thirty-second job, at 60 s, picks up again.\<close>

definition hot_retry :: "(time \<times> event) list" where
  "hot_retry =
     [(0, Start), (2000, TickPending),
      (5000, Trigger sku0 web0 (res0 20)),
      (30000, TickPending), (30010, Advance 0), (30020, Register 0),
      (30030, Complete 0 (FailedWith ''No valid credit card found for this website'')),
      (30040, Release 0),
      (60000, TickPending), (60010, Advance 1)]"

text \<open>The high-priority job fires twice, five minutes apart, and no call of
  \<open>scrapeByPriority\<close> has returned.\<close>

definition two_ticks :: "(time \<times> sm_event) list" where
  "two_ticks =
     [(0, SmStart), (300000, CronFire (PriorityJob High)), (600000, CronFire (PriorityJob High))]"

text \<open>A user of the test storage with one SKU and one card, a bot with real scraping
  disabled and one with real scraping enabled, the draws of two simulations, and
  three answers of a scraper: a failure, a price of 21.49, and a success without a
  price.\<close>

definition user0 :: user where
  "user0 = \<lparr>u_id = ''u1'', u_email = ''ash@example.org''\<rparr>"

definition bsku0 :: bot_sku where
  "bsku0 = \<lparr>bs_id = ''sku-1'', bs_name = ''Booster Pack'', bs_targetPrice = 25, bs_maxPrice = 35\<rparr>"

definition cards0 :: "credit_card list" where
  "cards0 = [\<lparr>cardName = ''Visa'', isDefault = True\<rparr>]"

definition urls0 :: url_data where
  "urls0 = \<lparr>productUrl = ''https://www.target.com/p/x'', displayUrl = ''https://www.target.com/p/x'',
            searchUrl = ''https://www.target.com/s?searchTerm=x''\<rparr>"

definition bot0 :: bot where
  "bot0 = \<lparr>realScrapingEnabled = False, purchaseAttempts = [], testPurchases = []\<rparr>"

definition draws0 :: draws where
  "draws0 = \<lparr>d_deal = 1 / 2, d_price = 1 / 2, d_stock = 1 / 2\<rparr>"

definition bot1 :: bot where
  "bot1 = \<lparr>realScrapingEnabled = True, purchaseAttempts = [], testPurchases = []\<rparr>"

definition draws1 :: draws where
  "draws1 = \<lparr>d_deal = 1 / 4, d_price = 1 / 5, d_stock = 3 / 4\<rparr>"

definition failed0 :: scrape_result where
  "failed0 = \<lparr>success = False, r_website = Some ''target'', price = None, inStock = False,
              r_error = Some ''Navigation timeout of 30000 ms exceeded''\<rparr>"

definition observed0 :: scrape_result where
  "observed0 = \<lparr>success = True, r_website = Some ''target'', price = Some (2149 / 100),
                inStock = True, r_error = None\<rparr>"

definition priceless0 :: scrape_result where
  "priceless0 = \<lparr>success = True, r_website = Some ''target'', price = None, inStock = True,
                 r_error = None\<rparr>"

text \<open>What is read off the records of the test storage.\<close>

definition recorded :: "bot \<Rightarrow> (status \<times> int \<times> rat \<times> string) list" where
  "recorded b =
     map (\<lambda>x. (bp_status x, bp_quantity x, bp_price x, bp_dataSource x)) (testPurchases b)"

section \<open>Properties of the scraper manager\<close>

lemma website_enum_scrapers: "set website_enum = set scrapers"
  by (auto simp: website_enum_def scrapers_def)

lemma db_processScrapingResult:
  "db (processScrapingResult s w r now st) =
     (if priceMeetsTarget s r \<and> autoPurchase s \<and> \<not> requireConfirmation s
      then triggerAutoPurchase s w r now (db st) else db st)"
  by (simp add: processScrapingResult_def Let_def)

lemma results_processScrapingResult:
  "results (processScrapingResult s w r now st) =
     map_set (cacheKey (sku_id s) (w_name w)) (cacheEntry s w r now) (results st)"
  by (simp add: processScrapingResult_def Let_def)

lemma buys_iff:
  assumes "validSku s w"
  shows "buys s w pr now st \<longleftrightarrow>
           (\<exists>r p. pr = Returned r \<and> success r \<and> price r = Some p \<and> p \<noteq> 0 \<and>
              p \<le> targetPrice s \<and> inStock r \<and> autoPurchase s \<and> \<not> requireConfirmation s)"
proof -
  have w: "w_name w \<in> set scrapers"
    using assms website_enum_scrapers by (simp add: validSku_def)
  show ?thesis
  proof (cases pr)
    case (Thrown e)
    then show ?thesis using w by (simp add: buys_def scrapeSingleProduct_def)
  next
    case (Returned r)
    then show ?thesis using w assms
      by (auto simp: buys_def scrapeSingleProduct_def db_processScrapingResult
          priceMeetsTarget_def triggerAutoPurchase_def split: option.splits)
  qed
qed

lemmas example_defs =
  sku0_def web0_def res0_def newScraperManager_def validSku_def website_enum_def
  scrapers_def buys_def scrapeSingleProduct_def db_processScrapingResult
  priceMeetsTarget_def triggerAutoPurchase_def newPurchase_def openPurchases_def

text \<open>
  C1, as the claim states it, fails: a successful probe that reports the product in
  stock at price 0, for an item with target price 25, auto-purchase on and confirmation
  off, does not buy. The test \<open>result.price && ...\<close> reads a price of 0 as no price.
\<close>

theorem C1_price_zero_counterexample:
  "success (res0 0) \<and> inStock (res0 0) \<and> price (res0 0) = Some 0 \<and>
   0 \<le> targetPrice sku0 \<and> autoPurchase sku0 \<and> \<not> requireConfirmation sku0 \<and>
   validSku sku0 web0 \<and>
   \<not> buys sku0 web0 (Returned (res0 0)) 1000 newScraperManager"
  by (simp add: example_defs)

text \<open>
  C1, amended: for a SKU that satisfies its schema, a probe makes the manager buy if and
  only if it returned a result with \<open>success\<close> set, with a price that is present and not
  0 and at most the target price, in stock, and the item has auto-purchase on and
  confirmation off. In particular a price strictly between 0 and the target buys, and a
  price of 0 never does.
\<close>

theorem C1_buy_decision:
  assumes "validSku s w"
  shows "(buys s w pr now st \<longleftrightarrow>
            (\<exists>r p. pr = Returned r \<and> success r \<and> price r = Some p \<and> p \<noteq> 0 \<and>
               p \<le> targetPrice s \<and> inStock r \<and> autoPurchase s \<and> \<not> requireConfirmation s))
       \<and> (success r \<and> price r = Some p \<and> 0 < p \<and> p < targetPrice s \<and> inStock r \<and>
            autoPurchase s \<and> \<not> requireConfirmation s \<longrightarrow> buys s w (Returned r) now st)
       \<and> (price r = Some 0 \<longrightarrow> \<not> buys s w (Returned r) now st)"
  using buys_iff[OF assms] by auto

theorem C1_buy_decision_witness:
  "validSku sku0 web0 \<and>
   buys sku0 web0 (Returned (res0 20)) 1000 newScraperManager \<and>
   buys sku0 web0 (Returned (res0 25)) 1000 newScraperManager \<and>
   \<not> buys sku0 web0 (Returned (res0 30)) 1000 newScraperManager \<and>
   \<not> buys sku0 web0 (Thrown ''timeout'') 1000 newScraperManager"
proof -
  have h: "validSku sku0 web0"
    by (simp add: sku0_def web0_def validSku_def website_enum_def)
  show ?thesis
    using h
      C1_buy_decision[OF h, of "Returned (res0 20)" 1000 newScraperManager "res0 20" 20]
      C1_buy_decision[OF h, of "Returned (res0 25)" 1000 newScraperManager "res0 25" 25]
      C1_buy_decision[OF h, of "Returned (res0 30)" 1000 newScraperManager "res0 30" 30]
      C1_buy_decision[OF h, of "Thrown ''timeout''" 1000 newScraperManager "res0 20" 20]
    by (simp add: sku0_def res0_def)
qed

text \<open>
  C2, as the claim states it, fails: two probes of the same item at the same retailer,
  thirty seconds apart, leave two pending purchases of that pair. Nothing is rejected.
\<close>

theorem C2_duplicate_counterexample:
  "map p_status
     (openPurchases (sku_id sku0) (w_name web0)
        (db (scrapeSingleProduct sku0 web0 (Returned (res0 20)) 31000
               (scrapeSingleProduct sku0 web0 (Returned (res0 20)) 1000 newScraperManager))))
   = [Pending, Pending]"
  by (simp add: example_defs)

text \<open>
  C2, amended: \<open>triggerAutoPurchase\<close> never consults the collection. For a SKU that
  satisfies its schema and a result with a price, it appends a new pending purchase
  whatever the collection holds, so the pending or processing purchases of the
  (item, retailer) pair are those there were, and the new one.
\<close>

theorem C2_intent_always_accepted:
  assumes "validSku s w" and "price r = Some p"
  shows "openPurchases (sku_id s) (w_name w) (triggerAutoPurchase s w r now d) =
           openPurchases (sku_id s) (w_name w) d @ [newPurchase s w p now (length d)]
       \<and> p_status (newPurchase s w p now (length d)) = Pending"
  using assms by (simp add: triggerAutoPurchase_def openPurchases_def newPurchase_def)

theorem C2_intent_always_accepted_witness:
  "validSku sku0 web0 \<and> price (res0 20) = Some 20 \<and>
   length (openPurchases (sku_id sku0) (w_name web0)
     (triggerAutoPurchase sku0 web0 (res0 20) 31000
        (triggerAutoPurchase sku0 web0 (res0 20) 1000 []))) = 2"
proof -
  have h: "validSku sku0 web0"
    by (simp add: sku0_def web0_def validSku_def website_enum_def)
  have p: "price (res0 20) = Some 20"
    by (simp add: res0_def)
  show ?thesis
    using h p
      C2_intent_always_accepted[OF h p, of 31000 "triggerAutoPurchase sku0 web0 (res0 20) 1000 []"]
      C2_intent_always_accepted[OF h p, of 1000 "[]"]
    by (simp add: openPurchases_def)
qed

subsection \<open>The results map\<close>

lemma split_on_ne [simp]: "split_on c k \<noteq> []"
  by (induction k) (auto split: list.splits)

lemma split_on_free: "c \<notin> set x \<Longrightarrow> split_on c x = [x]"
  by (induction x) auto

lemma split_on_app: "c \<notin> set x \<Longrightarrow> split_on c (x @ c # y) = x # split_on c y"
  by (induction x) auto

lemma split_on_single: "split_on c k = [a] \<Longrightarrow> k = a"
  by (induction k arbitrary: a) (auto split: if_splits list.splits)

lemma split_on_two: "split_on c k = [a, b] \<Longrightarrow> k = a @ c # b"
proof (induction k arbitrary: a)
  case Nil
  then show ?case by simp
next
  case (Cons x xs)
  show ?case
  proof (cases "x = c")
    case True
    with Cons.prems have "a = []" "split_on c xs = [b]" by auto
    then show ?thesis using True split_on_single by fastforce
  next
    case False
    with Cons.prems obtain p where p: "split_on c xs = [p, b]" "a = x # p"
      by (auto split: list.splits)
    then show ?thesis using Cons.IH by simp
  qed
qed

lemma split_cacheKey:
  "us_free i \<Longrightarrow> us_free r \<Longrightarrow> split_on CHR ''_'' (cacheKey i r) = [i, r]"
  by (simp add: cacheKey_def us_free_def split_on_app split_on_free)

lemma keyMatches_iff:
  assumes "length (split_on CHR ''_'' k) = 2" "us_free i" "us_free r" "r \<noteq> []"
  shows "keyMatches i (Some r) k \<longleftrightarrow> k = cacheKey i r"
proof -
  from assms(1) obtain a b where ab: "split_on CHR ''_'' k = [a, b]"
    by (cases "split_on CHR ''_'' k") (auto simp: length_Suc_conv)
  then have k: "k = cacheKey a b" using split_on_two by (simp add: cacheKey_def)
  show ?thesis
  proof
    assume "keyMatches i (Some r) k"
    then have "a = i" "b = r" using ab assms(4) by (auto simp: keyMatches_def)
    then show "k = cacheKey i r" using k by simp
  next
    assume "k = cacheKey i r"
    then show "keyMatches i (Some r) k"
      using split_cacheKey[OF assms(2,3)] by (simp add: keyMatches_def)
  qed
qed

lemma map_fst_map_set:
  "map fst (map_set k v m) = (if k \<in> fst ` set m then map fst m else map fst m @ [k])"
  by (induction m) force+

lemma filter_map_set:
  "distinct (map fst m) \<Longrightarrow> filter (\<lambda>(k', v'). k' = k) (map_set k v m) = [(k, v)]"
proof (induction m)
  case Nil
  then show ?case by simp
next
  case (Cons x m)
  obtain k' v' where x: "x = (k', v')" by (cases x)
  show ?case
  proof (cases "k' = k")
    case True
    with Cons.prems x have "k \<notin> fst ` set m" by simp
    then have "filter (\<lambda>(k', v'). k' = k) m = []" by (force simp: filter_empty_conv)
    with True x show ?thesis by simp
  next
    case False
    with Cons x show ?thesis by simp
  qed
qed

lemma wf_cache_map_set:
  assumes "wf_cache m" "us_free i" "us_free r"
  shows "wf_cache (map_set (cacheKey i r) e m)"
  using assms by (auto simp: wf_cache_def map_fst_map_set split_cacheKey)

lemma wf_cache_cleanup: "wf_cache m \<Longrightarrow> wf_cache (cleanup now m)"
  by (auto simp: wf_cache_def cleanup_def distinct_map_filter)

lemma getResults_map_set:
  assumes "wf_cache m" "us_free i" "us_free r" "r \<noteq> []"
  shows "getResults (map_set (cacheKey i r) e m) i (Some r) = [e]"
proof -
  let ?m = "map_set (cacheKey i r) e m"
  have wf: "wf_cache ?m" using assms by (simp add: wf_cache_map_set)
  have "filter (\<lambda>(k, v). keyMatches i (Some r) k) ?m = filter (\<lambda>(k, v). k = cacheKey i r) ?m"
  proof (rule filter_cong[OF refl])
    fix x assume "x \<in> set ?m"
    then have "length (split_on CHR ''_'' (fst x)) = 2" using wf by (auto simp: wf_cache_def)
    then show "(case x of (k, v) \<Rightarrow> keyMatches i (Some r) k) =
               (case x of (k, v) \<Rightarrow> k = cacheKey i r)"
      using keyMatches_iff[OF _ assms(2,3,4)] by (cases x) simp
  qed
  also have "\<dots> = [(cacheKey i r, e)]"
    using assms(1) by (simp add: filter_map_set wf_cache_def)
  finally show ?thesis by (simp add: getResults_def)
qed

text \<open>
  C9: in a results map built from ids and website names without underscores, after
  \<open>processScrapingResult\<close> has stored a result for an item and a website, \<open>getResults\<close>
  for that item and website returns exactly the entry made from that result: the
  result's own fields with the website name, the SKU id and the time of the call. A
  second result for the same item and website replaces the first entry whole, and the
  map keeps one entry per key, also through \<open>cleanup\<close>.
\<close>

theorem C9_cache_round_trip:
  assumes "wf_cache (results st)" and "us_free (sku_id s)" and "us_free (w_name w)"
    and "w_name w \<noteq> []"
  shows "getResults (results (processScrapingResult s w r now st)) (sku_id s) (Some (w_name w))
           = [cacheEntry s w r now]
       \<and> getResults
           (results (processScrapingResult s w r2 now2 (processScrapingResult s w r now st)))
           (sku_id s) (Some (w_name w)) = [cacheEntry s w r2 now2]
       \<and> scrape_result.truncate (cacheEntry s w r now) = r\<lparr>r_website := Some (w_name w)\<rparr>
       \<and> c_sku (cacheEntry s w r now) = sku_id s \<and> c_timestamp (cacheEntry s w r now) = now
       \<and> wf_cache (results (processScrapingResult s w r now st))
       \<and> wf_cache (cleanup now2 (results (processScrapingResult s w r now st)))"
proof -
  have 1: "wf_cache (results (processScrapingResult s w r now st))"
    using assms by (simp add: results_processScrapingResult wf_cache_map_set)
  have 2: "scrape_result.truncate (cacheEntry s w r now) = r\<lparr>r_website := Some (w_name w)\<rparr>"
    by (simp add: cacheEntry_def scrape_result.truncate_def scrape_result.extend_def)
  have 3: "getResults
             (results (processScrapingResult s w r2 now2 (processScrapingResult s w r now st)))
             (sku_id s) (Some (w_name w)) = [cacheEntry s w r2 now2]"
    using assms 1 by (simp add: results_processScrapingResult[of s w r2] getResults_map_set)
  have 4: "getResults (results (processScrapingResult s w r now st)) (sku_id s) (Some (w_name w))
             = [cacheEntry s w r now]"
    using assms by (simp add: results_processScrapingResult getResults_map_set)
  have 5: "c_sku (cacheEntry s w r now) = sku_id s \<and> c_timestamp (cacheEntry s w r now) = now"
    by (simp add: cacheEntry_def scrape_result.extend_def)
  show ?thesis
    using 1 2 3 4 5 wf_cache_cleanup[OF 1] by simp
qed

theorem C9_cache_round_trip_witness:
  "wf_cache (results newScraperManager) \<and> us_free (sku_id sku0) \<and> us_free (w_name web0) \<and>
   w_name web0 \<noteq> [] \<and>
   map price
     (getResults
        (results (processScrapingResult sku0 web0 (res0 30) 2000
                    (processScrapingResult sku0 web0 (res0 20) 1000 newScraperManager)))
        ''64a1f0'' (Some ''target'')) = [Some 30]"
proof -
  have a: "wf_cache (results newScraperManager)"
    by (simp add: newScraperManager_def wf_cache_def)
  have b: "us_free (sku_id sku0)" and c: "us_free (w_name web0)" and d: "w_name web0 \<noteq> []"
    by (simp_all add: us_free_def sku0_def web0_def)
  show ?thesis
    using a b c d C9_cache_round_trip[OF a b c d, of "res0 20" 1000 "res0 30" 2000]
    by (simp add: sku0_def web0_def res0_def cacheEntry_def scrape_result.extend_def)
qed

section \<open>Properties of the purchase manager\<close>

subsection \<open>What the documents satisfy in every reachable state\<close>

lemma saveDoc_simps [simp]:
  "pid (saveDoc old new q) = pid q"
  "maxAttempts (saveDoc old new q) = maxAttempts q"
  "p_status (saveDoc old new q) = (if p_status new = p_status old then p_status q else p_status new)"
  "attemptNumber (saveDoc old new q) =
     (if attemptNumber new = attemptNumber old then attemptNumber q else attemptNumber new)"
  "lastAttempt (saveDoc old new q) =
     (if lastAttempt new = lastAttempt old then lastAttempt q else lastAttempt new)"
  by (simp_all add: saveDoc_def)

lemma save_pid [simp]: "map pid (save old new d) = map pid d"
  by (simp add: save_def)

lemma save_length [simp]: "length (save old new d) = length d"
  by (simp add: save_def)

lemma save_fixed:
  "(\<forall>q \<in> set (save old new d). pid q = i \<longrightarrow> maxAttempts q = n) =
   (\<forall>q \<in> set d. pid q = i \<longrightarrow> maxAttempts q = n)"
  by (induction d) (auto simp: save_def)

lemma mem_ok_save [simp]: "mem_ok (save old new d) p = mem_ok d p"
  by (simp add: mem_ok_def save_fixed)

lemma worker_ok_save [simp]: "worker_ok (save old new d) w = worker_ok d w"
  by (simp add: worker_ok_def cong: option.case_cong)






lemma pid_error [simp]: "map pid (snd (handlePurchaseError p msg now d)) = map pid d"
  by (simp add: handlePurchaseError_def Let_def)

lemma pid_success [simp]: "map pid (snd (handlePurchaseSuccess p oid tid d)) = map pid d"
  by (simp add: handlePurchaseSuccess_def Let_def)

lemma length_error [simp]: "length (snd (handlePurchaseError p msg now d)) = length d"
  by (simp add: handlePurchaseError_def Let_def)

lemma length_success [simp]: "length (snd (handlePurchaseSuccess p oid tid d)) = length d"
  by (simp add: handlePurchaseSuccess_def Let_def)

lemma worker_ok_error [simp]:
  "worker_ok (snd (handlePurchaseError p msg now d)) w = worker_ok d w"
  by (simp add: handlePurchaseError_def Let_def)

lemma worker_ok_success [simp]:
  "worker_ok (snd (handlePurchaseSuccess p oid tid d)) w = worker_ok d w"
  by (simp add: handlePurchaseSuccess_def Let_def)

















lemma begin_Inr:
  assumes "processPurchase_begin now p m = Inr (p', m')"
  shows "p' = p\<lparr>p_status := Processing, lastAttempt := now\<rparr>"
    and "purchases m' = save p p' (purchases m)"
    and "workers m' = workers m"
    and "activePurchases m' = activePurchases m"
    and "purchasers m' = purchasers m"
    and "pm_isRunning m' = pm_isRunning m"
  using assms
  by (auto simp: processPurchase_begin_def Let_def split: option.splits)

















subsection \<open>The maps\<close>

lemma map_of_map_set: "map_of (map_set k v m) k = Some v"
  by (induction m) auto



subsection \<open>Cancelling\<close>

text \<open>
  What \<open>cancelPurchase\<close> does in any state: on a purchase that is \<open>success\<close> or
  \<open>cancelled\<close> it fails and changes nothing; on any other purchase it sets the status
  to \<open>cancelled\<close>, and when \<open>activePurchases\<close> has the id it cancels the purchaser
  found there and removes the id.
\<close>

lemma cancelPurchase_closed:
  assumes "find (\<lambda>q. pid q = i) (purchases m) = Some p"
    and "p_status p = Success \<or> p_status p = Cancelled"
  shows "cancelPurchase i m = Inl ''Cannot cancel completed or already cancelled purchase''"
    and "step (now, Cancel i) m = m"
  using assms by (auto simp: cancelPurchase_def)



subsection \<open>The claims about the purchase manager\<close>

lemma saveDoc_self:
  "saveDoc p (p\<lparr>p_status := s, lastAttempt := t\<rparr>) p = p\<lparr>p_status := s, lastAttempt := t\<rparr>"
  by (simp add: saveDoc_def)




text \<open>
  C4: the code breaks the bound. \<open>processPendingPurchases\<close> tests the capacity once,
  before its query, and then processes the documents it fetched one after the other
  without testing it again (the loop of \<open>retryFailedPurchases\<close> does test it before
  each document). With firings that overlap, a call that is between two of its
  documents holds no place in \<open>activePurchases\<close>, a new firing takes the place, and the
  call goes on all the same. After purchase 0 has completed, two purchases are
  processing; the first call saves its next document as \<open>processing\<close>, and before it
  has registered it the firing at 150 s fetches purchase 4. At the end four purchases
  are in status \<open>processing\<close> and \<open>activePurchases\<close> holds four entries. Purchase 1 is
  then executed a second time, after it had succeeded.
\<close>

theorem C4_over_capacity:
  "map p_status (purchases (run (take 23 over_capacity) newManager))
     = [Success, Success, Processing, Processing, Pending] \<and>
   processing (run over_capacity newManager) = [1, 2, 3, 4] \<and>
   map fst (activePurchases (run over_capacity newManager)) = [2, 3, 1, 4] \<and>
   maxConcurrentPurchases = 3"
  by code_simp

text \<open>
  C5, as the claim states it, fails: the pickup of a pending purchase leaves its attempt
  number at 1.
\<close>

theorem C5_pickup_counterexample:
  "attempts (run queued newManager) = [(Pending, 1, 5000)] \<and>
   attempts (run (queued @ [(30010, Advance 0)]) newManager) = [(Processing, 1, 30010)]"
  by code_simp

text \<open>
  C5, amended: the transition from \<open>pending\<close> into \<open>processing\<close> stamps the last-attempt
  time before the purchaser is called, in memory and in the collection, and leaves the
  attempt number as it was. The attempt number is incremented afterwards, by
  \<open>handlePurchaseError\<close>, when the attempt has failed; a successful attempt leaves it.
\<close>

theorem C5_pickup_stamps_time:
  assumes "processPurchase_begin now p m = Inr (p', m')" and "p \<in> set (purchases m)"
    and "p_status p = Pending"
  shows "p_status p' = Processing \<and> lastAttempt p' = now \<and> attemptNumber p' = attemptNumber p
       \<and> p' \<in> set (purchases m')
       \<and> purchases (processPurchase_register p' m') = purchases m'
       \<and> map_of (activePurchases (processPurchase_register p' m')) (pid p) = Some (p_website p)
       \<and> attemptNumber (fst (handlePurchaseError p' msg t d)) = attemptNumber p + 1
       \<and> attemptNumber (fst (handlePurchaseSuccess p' oid tid d)) = attemptNumber p"
proof -
  note b = begin_Inr[OF assms(1)]
  have "saveDoc p p' p \<in> set (purchases m')"
    unfolding b(2) save_def using assms(2) by (auto simp: b(1) intro!: image_eqI[where x = p])
  then have "p' \<in> set (purchases m')"
    by (simp add: b(1) saveDoc_self)
  then show ?thesis
    by (simp add: b(1) processPurchase_register_def map_of_map_set handlePurchaseError_def
        handlePurchaseSuccess_def Let_def)
qed

theorem C5_pickup_stamps_time_witness:
  "\<exists>p' m'. processPurchase_begin 30010 purchase0 (run queued newManager) = Inr (p', m') \<and>
     purchase0 \<in> set (purchases (run queued newManager)) \<and> p_status purchase0 = Pending \<and>
     attemptNumber purchase0 = 1 \<and>
     p_status p' = Processing \<and> lastAttempt p' = 30010 \<and> attemptNumber p' = 1 \<and>
     p' \<in> set (purchases m')"
proof -
  have q: "purchases (run queued newManager) = [purchase0]"
    by code_simp
  have r: "map_of (purchasers (run queued newManager)) ''target'' = Some newPurchaser"
    by code_simp
  have w: "p_website purchase0 = ''target''" "p_status purchase0 = Pending"
    "attemptNumber purchase0 = 1"
    by (simp_all add: purchase0_def newPurchase_def web0_def)
  obtain p' m' where b: "processPurchase_begin 30010 purchase0 (run queued newManager) = Inr (p', m')"
    using r w by (simp add: processPurchase_begin_def Let_def)
  have s: "purchase0 \<in> set (purchases (run queued newManager))"
    using q by simp
  show ?thesis
    using b s w C5_pickup_stamps_time[OF b s w(2)] by auto
qed

text \<open>
  C6: the code breaks the cooldown. The query of \<open>retryFailedPurchases\<close> asks for a
  last attempt more than ten minutes ago, the query of \<open>processPendingPurchases\<close> does
  not, and it returns every pending purchase with an attempt number up to 3. A
  purchase whose first attempt, started at 30.01 s, has failed is picked up again at
  60.01 s, thirty seconds after its last attempt; at that time the retry query does
  not return it.
\<close>

theorem C6_no_cooldown:
  "attempts (run (take 8 hot_retry) newManager) = [(Pending, 2, 30010)] \<and>
   findRetry 60000 (purchases (run (take 8 hot_retry) newManager)) = [] \<and>
   attempts (run hot_retry newManager) = [(Processing, 2, 60010)] \<and>
   (60010 :: int) - 30010 < 10 * 60 * 1000"
  by code_simp

text \<open>
  C7: the code does not stop every purchase that is \<open>processing\<close>. (On a purchase that
  is \<open>success\<close> or \<open>cancelled\<close> the function does fail and change nothing, in every
  state: \<open>cancelPurchase_closed\<close>.) \<open>cancelPurchase\<close>
  takes a purchase for in flight when \<open>activePurchases\<close> has its id, and then cancels
  the purchaser and removes the id: in the first state below, during the first
  attempt, the purchaser's flag is set, so that its next checkpoint throws, and its
  browser is closed. But the \<open>finally\<close> block of \<open>processPurchase\<close> removes the id
  whoever has entered it. In the second state the first attempt has failed and, while
  its handler was sending the mail, the next firing of the job has started the second
  attempt, registered under the same id; the handler has returned and the id is gone.
  The purchase is \<open>processing\<close>, a worker is waiting for its purchaser, the purchaser's
  browser is open, and \<open>activePurchases\<close> is empty. \<open>cancelPurchase\<close> then sets the status
  to \<open>cancelled\<close> and does nothing else: the purchasers are as they were, the flag is
  not set, the browser stays open, the next checkpoint passes. The attempt goes on,
  and when it succeeds the purchase that was cancelled is \<open>success\<close>.
\<close>

theorem C7_cancel_unregistered:
  "(let m = run (take 7 unregistered) newManager in
      map p_status (purchases m) = [Processing] \<and>
      map (\<lambda>w. map_option (\<lambda>p. (pid p, phase w)) (current w)) (workers m)
        = [Some (0, Executing)] \<and>
      activePurchases m = [(0, ''target'')] \<and>
      map_of (purchasers m) ''target'' = Some \<lparr>isCancelled = False, browser = BrowserOpen\<rparr> \<and>
      (case cancelPurchase 0 m of
         Inl e \<Rightarrow> False
       | Inr (p', m') \<Rightarrow>
           map p_status (purchases m') = [Cancelled] \<and> activePurchases m' = [] \<and>
           map_of (purchasers m') ''target''
             = Some \<lparr>isCancelled = True, browser = BrowserClosed\<rparr> \<and>
           map_option checkpoint (map_of (purchasers m') ''target'')
             = Some (Inl ''Purchase cancelled'')))
   \<and> (let m = run unregistered newManager in
      map p_status (purchases m) = [Processing] \<and>
      map (\<lambda>w. map_option (\<lambda>p. (pid p, phase w)) (current w)) (workers m)
        = [None, Some (0, Executing)] \<and>
      activePurchases m = [] \<and>
      map_of (purchasers m) ''target'' = Some \<lparr>isCancelled = False, browser = BrowserOpen\<rparr> \<and>
      (case cancelPurchase 0 m of
         Inl e \<Rightarrow> False
       | Inr (p', m') \<Rightarrow>
           map p_status (purchases m') = [Cancelled] \<and>
           purchasers m' = purchasers m \<and> workers m' = workers m \<and>
           map_option checkpoint (map_of (purchasers m') ''target'') = Some (Inr ()) \<and>
           map p_status (purchases (run second_attempt m')) = [Success] \<and>
           cancelPurchase 0 (run second_attempt m')
             = Inl ''Cannot cancel completed or already cancelled purchase''))"
  by code_simp

section \<open>Properties of the scheduler\<close>

text \<open>
  C8, as the claim states it, fails: the high-priority job fires twice while the first
  call of \<open>scrapeByPriority\<close> has not returned, and two calls for the same tier are in
  flight. The second tick is neither skipped nor queued.
\<close>

theorem C8_overlap_counterexample:
  "sm_isRunning (sm_run two_ticks newScraperManager) \<and>
   inflight (sm_run (butlast two_ticks) newScraperManager) = [High] \<and>
   inflight (sm_run two_ticks newScraperManager) = [High, High]"
  by code_simp

text \<open>
  C8, amended: while the scheduler is running, every firing of a tier's job starts a
  new call of \<open>scrapeByPriority\<close> for that tier, whatever calls are still in flight; a
  firing starts nothing only when the manager is not running.
\<close>

theorem C8_every_tick_starts:
  assumes "sm_isRunning st" and "PriorityJob p \<in> set (cronJobs st)"
  shows "inflight (sm_step (now, CronFire (PriorityJob p)) st) = inflight st @ [p]
       \<and> count_list (inflight (sm_step (now, CronFire (PriorityJob p)) st)) p
           = Suc (count_list (inflight st) p)
       \<and> sm_step (now, CronFire (PriorityJob p)) (st\<lparr>sm_isRunning := False\<rparr>)
           = st\<lparr>sm_isRunning := False\<rparr>"
  using assms by (simp add: cronFire_def scrapeByPriority_begin_def)

theorem C8_every_tick_starts_witness:
  "sm_isRunning (sm_run (butlast two_ticks) newScraperManager) \<and>
   PriorityJob High \<in> set (cronJobs (sm_run (butlast two_ticks) newScraperManager)) \<and>
   inflight (sm_run (butlast two_ticks) newScraperManager) = [High] \<and>
   count_list
     (inflight (sm_step (600000, CronFire (PriorityJob High))
        (sm_run (butlast two_ticks) newScraperManager))) High = 2"
proof -
  let ?st = "sm_run (butlast two_ticks) newScraperManager"
  have a: "sm_isRunning ?st" and b: "PriorityJob High \<in> set (cronJobs ?st)"
    and c: "inflight ?st = [High]"
    by code_simp+
  show ?thesis
    using a b c C8_every_tick_starts[OF a b, of 600000] by simp
qed

section \<open>Properties of the automated purchase bot\<close>

lemma executeAutomatedPurchase_cases:
  "executeAutomatedPurchase u s cs site pricePaid ct md urls now store = (None, store) \<or>
   (\<exists>x. executeAutomatedPurchase u s cs site pricePaid ct md urls now store
           = (Some x, store @ [x]) \<and>
         bp_status x = Success \<and> bp_quantity x = 1 \<and> bp_price x = pricePaid \<and>
         bp_total x = pricePaid \<and> bp_automatedPurchase x \<and>
         bp_realScraping x = (case md of None \<Rightarrow> False | Some d \<Rightarrow> realData d) \<and>
         bp_dataSource x =
           (if (case md of None \<Rightarrow> False | Some d \<Rightarrow> realData d) then ''scraped''
            else ''simulated''))"
  by (simp add: executeAutomatedPurchase_def Let_def split: option.splits list.splits)

lemma checkWebsite_cases:
  "testPurchases (checkWebsite u s cs ct site pr live dr urls now b) = testPurchases b \<or>
   (\<exists>x. testPurchases (checkWebsite u s cs ct site pr live dr urls now b)
           = testPurchases b @ [x] \<and>
         bp_status x = Success \<and> bp_quantity x = 1 \<and>
         bp_price x = md_price (getMarketPrice b s site pr live dr) \<and>
         bp_total x = md_price (getMarketPrice b s site pr live dr) \<and>
         bp_realScraping x = realData (getMarketPrice b s site pr live dr) \<and>
         bp_dataSource x =
           (if realData (getMarketPrice b s site pr live dr) then ''scraped''
            else ''simulated''))"
proof -
  let ?md = "getMarketPrice b s site pr live dr"
  from executeAutomatedPurchase_cases[of u s cs site "md_price ?md" ct "Some ?md" urls now
      "testPurchases b"]
  show ?thesis
    by (auto simp: checkWebsite_def Let_def)
qed

lemma getMarketPrice_disabled:
  assumes "\<not> realScrapingEnabled b \<or> site \<notin> set scrapers"
  shows "getMarketPrice b s site pr live dr
           = simulateMarketData (bs_targetPrice s) (bs_maxPrice s) site dr"
  using assms by (auto simp: getMarketPrice_def scrapeRealPrice_def)

lemma getMarketPrice_failed:
  assumes "realScrapingEnabled b" and "site \<in> set scrapers"
    and "(\<exists>e. pr = Thrown e) \<or> (\<exists>r. pr = Returned r \<and> \<not> success r)"
  shows "getMarketPrice b s site pr live dr =
           (if simulateReasonablePrice (bs_targetPrice s) (bs_maxPrice s) live = 0
            then simulateMarketData (bs_targetPrice s) (bs_maxPrice s) site dr
            else \<lparr>md_price = simulateReasonablePrice (bs_targetPrice s) (bs_maxPrice s) live,
                  md_inStock = (d_stock live > 2 / 10), realData = True, md_source = site\<rparr>)"
  using assms
  by (auto simp: getMarketPrice_def scrapeRealPrice_def fallbackSimulation_def)

lemma getMarketPrice_priceless:
  assumes "realScrapingEnabled b" and "site \<in> set scrapers"
    and "pr = Returned r" and "success r" and "price r = None \<or> price r = Some 0"
  shows "getMarketPrice b s site pr live dr
           = simulateMarketData (bs_targetPrice s) (bs_maxPrice s) site dr"
  using assms by (auto simp: getMarketPrice_def scrapeRealPrice_def)

lemma toFixed2_mono: "x \<le> y \<Longrightarrow> toFixed2 x \<le> toFixed2 y"
proof -
  assume xy: "x \<le> y"
  have f: "\<And>a b :: rat. a \<le> b \<Longrightarrow> (of_int \<lfloor>a * 100 + 1 / 2\<rfloor> :: rat) \<le> of_int \<lfloor>b * 100 + 1 / 2\<rfloor>"
    by (simp add: floor_mono)
  show ?thesis
  proof (cases "y < 0")
    case True
    then have "x < 0" using xy by simp
    moreover have "(of_int \<lfloor>- y * 100 + 1 / 2\<rfloor> :: rat) \<le> of_int \<lfloor>- x * 100 + 1 / 2\<rfloor>"
      using f[of "- y" "- x"] xy by simp
    ultimately show ?thesis
      using True by (simp add: toFixed2_def divide_right_mono)
  next
    case False
    show ?thesis
    proof (cases "x < 0")
      case True
      have "0 \<le> - x * 100 + 1 / 2" using True by simp
      then have "(0 :: rat) \<le> of_int \<lfloor>- x * 100 + 1 / 2\<rfloor>" by simp
      then have "toFixed2 x \<le> 0"
        using True by (simp add: toFixed2_def)
      moreover have "0 \<le> y * 100 + 1 / 2" using False by simp
      then have "(0 :: rat) \<le> of_int \<lfloor>y * 100 + 1 / 2\<rfloor>" by simp
      then have "0 \<le> toFixed2 y"
        using False by (simp add: toFixed2_def)
      ultimately show ?thesis
        by (rule order_trans)
    next
      case nx: False
      show ?thesis
        using f[OF xy] nx False by (simp add: toFixed2_def divide_right_mono)
    qed
  qed
qed

lemma draw_scale:
  fixes u w :: rat
  assumes "0 \<le> u" "u < 1" "0 \<le> w"
  shows "0 \<le> u * w" "u * w \<le> w"
  using assms by (simp_all add: mult_left_le_one_le)

lemma simulateMarketPrice_range:
  assumes "0 \<le> d_price dr" "d_price dr < 1" "0 \<le> t" "t \<le> mx"
  shows "(d_deal dr < 7 / 10 \<longrightarrow>
            toFixed2 (t * (8 / 10)) \<le> simulateMarketPrice t mx dr \<and>
            simulateMarketPrice t mx dr \<le> toFixed2 t) \<and>
         (\<not> d_deal dr < 7 / 10 \<longrightarrow>
            toFixed2 t \<le> simulateMarketPrice t mx dr \<and>
            simulateMarketPrice t mx dr \<le> toFixed2 mx)"
proof -
  let ?u = "d_price dr"
  have w: "0 \<le> t - t * (8 / 10)" "0 \<le> mx - t"
    using assms by simp_all
  note a = draw_scale[OF assms(1,2) w(1)]
  note b = draw_scale[OF assms(1,2) w(2)]
  have 1: "t * (8 / 10) \<le> ?u * (t - t * (8 / 10)) + t * (8 / 10)"
    using a(1) by linarith
  have 2: "?u * (t - t * (8 / 10)) + t * (8 / 10) \<le> t"
    using a(2) by linarith
  have 3: "t \<le> ?u * (mx - t) + t"
    using b(1) by linarith
  have 4: "?u * (mx - t) + t \<le> mx"
    using b(2) by linarith
  from 1 2 3 4 show ?thesis
    unfolding simulateMarketPrice_def Let_def by (auto intro: toFixed2_mono)
qed

lemma simulateReasonablePrice_range:
  assumes "0 \<le> d_price dr" "d_price dr < 1" "0 \<le> t" "t \<le> mx"
  shows "(d_deal dr < 6 / 10 \<longrightarrow>
            toFixed2 (t * (7 / 10)) \<le> simulateReasonablePrice t mx dr \<and>
            simulateReasonablePrice t mx dr \<le> toFixed2 t) \<and>
         (\<not> d_deal dr < 6 / 10 \<longrightarrow>
            toFixed2 t \<le> simulateReasonablePrice t mx dr \<and>
            simulateReasonablePrice t mx dr \<le> toFixed2 mx)"
proof -
  let ?u = "d_price dr"
  have w: "0 \<le> t - t * (7 / 10)" "0 \<le> mx - t"
    using assms by simp_all
  note a = draw_scale[OF assms(1,2) w(1)]
  note b = draw_scale[OF assms(1,2) w(2)]
  have 1: "t * (7 / 10) \<le> ?u * (t - t * (7 / 10)) + t * (7 / 10)"
    using a(1) by linarith
  have 2: "?u * (t - t * (7 / 10)) + t * (7 / 10) \<le> t"
    using a(2) by linarith
  have 3: "t \<le> ?u * (mx - t) + t"
    using b(1) by linarith
  have 4: "?u * (mx - t) + t \<le> mx"
    using b(2) by linarith
  from 1 2 3 4 show ?thesis
    unfolding simulateReasonablePrice_def Let_def by (auto intro: toFixed2_mono)
qed

lemma simulateMarketPrice_draws:
  "simulateMarketPrice t mx dr =
     (if d_deal dr < 7 / 10 then toFixed2 (t * (8 / 10) + d_price dr * (t - t * (8 / 10)))
      else toFixed2 (t + d_price dr * (mx - t)))"
  by (simp add: simulateMarketPrice_def Let_def add.commute)

lemma simulateReasonablePrice_draws:
  "simulateReasonablePrice t mx dr =
     (if d_deal dr < 6 / 10 then toFixed2 (t * (7 / 10) + d_price dr * (t - t * (7 / 10)))
      else toFixed2 (t + d_price dr * (mx - t)))"
  by (simp add: simulateReasonablePrice_def Let_def add.commute)

text \<open>
  C10: whatever \<open>executeAutomatedPurchase\<close> adds to the test storage is one record with
  status \<open>success\<close>, quantity 1 and the price it was called with; it adds it at once,
  and it calls no purchaser (the bot has none). A record that \<open>checkSKUForPurchase\<close>
  adds for a website carries the price of \<open>getMarketPrice\<close>. That price is not an
  observed one in any of these cases. When real scraping is disabled, when the website
  has no scraper, and when the scraper reports a success without a price, it is the
  price of the bot's simulation. When the scraper fails (its result has no \<open>success\<close>,
  or it throws) it is the price of the fallback simulation of the live testing
  system, which the bot takes for real data; should that price be 0, it is the price
  of the bot's simulation. Both simulated prices are computed from the draws of
  \<open>Math.random()\<close> and from the target and the maximal price of the SKU, and from
  nothing else: with a good-deal draw the price is placed by the second draw between
  80% (70% in the fallback) of the target price and the target price, otherwise
  between the target price and the maximal price, and rounded to cents.
\<close>

theorem C10_bot_records:
  "(executeAutomatedPurchase u s cs site pricePaid ct md urls now store = (None, store) \<or>
    (\<exists>x. executeAutomatedPurchase u s cs site pricePaid ct md urls now store
            = (Some x, store @ [x]) \<and>
          bp_status x = Success \<and> bp_quantity x = 1 \<and> bp_price x = pricePaid \<and>
          bp_total x = pricePaid))
   \<and> (testPurchases (checkWebsite u s cs ct site pr live dr urls now b) = testPurchases b \<or>
       (\<exists>x. testPurchases (checkWebsite u s cs ct site pr live dr urls now b)
               = testPurchases b @ [x] \<and>
             bp_status x = Success \<and> bp_quantity x = 1 \<and>
             bp_price x = md_price (getMarketPrice b s site pr live dr) \<and>
             bp_realScraping x = realData (getMarketPrice b s site pr live dr)))
   \<and> (\<not> realScrapingEnabled b \<or> site \<notin> set scrapers \<or>
       (\<exists>r. pr = Returned r \<and> success r \<and> (price r = None \<or> price r = Some 0)) \<longrightarrow>
        md_price (getMarketPrice b s site pr live dr)
          = simulateMarketPrice (bs_targetPrice s) (bs_maxPrice s) dr \<and>
        \<not> realData (getMarketPrice b s site pr live dr))
   \<and> (realScrapingEnabled b \<and> site \<in> set scrapers \<and>
       ((\<exists>e. pr = Thrown e) \<or> (\<exists>r. pr = Returned r \<and> \<not> success r)) \<longrightarrow>
        (if simulateReasonablePrice (bs_targetPrice s) (bs_maxPrice s) live = 0
         then md_price (getMarketPrice b s site pr live dr)
                = simulateMarketPrice (bs_targetPrice s) (bs_maxPrice s) dr \<and>
              \<not> realData (getMarketPrice b s site pr live dr)
         else md_price (getMarketPrice b s site pr live dr)
                = simulateReasonablePrice (bs_targetPrice s) (bs_maxPrice s) live \<and>
              realData (getMarketPrice b s site pr live dr)))
   \<and> simulateMarketPrice t mx dr =
        (if d_deal dr < 7 / 10 then toFixed2 (t * (8 / 10) + d_price dr * (t - t * (8 / 10)))
         else toFixed2 (t + d_price dr * (mx - t)))
   \<and> simulateReasonablePrice t mx live =
        (if d_deal live < 6 / 10
         then toFixed2 (t * (7 / 10) + d_price live * (t - t * (7 / 10)))
         else toFixed2 (t + d_price live * (mx - t)))
   \<and> (0 \<le> d_price dr \<and> d_price dr < 1 \<and> 0 \<le> t \<and> t \<le> mx \<longrightarrow>
        (d_deal dr < 7 / 10 \<longrightarrow>
           toFixed2 (t * (8 / 10)) \<le> simulateMarketPrice t mx dr \<and>
           simulateMarketPrice t mx dr \<le> toFixed2 t) \<and>
        (\<not> d_deal dr < 7 / 10 \<longrightarrow>
           toFixed2 t \<le> simulateMarketPrice t mx dr \<and>
           simulateMarketPrice t mx dr \<le> toFixed2 mx))
   \<and> (0 \<le> d_price live \<and> d_price live < 1 \<and> 0 \<le> t \<and> t \<le> mx \<longrightarrow>
        (d_deal live < 6 / 10 \<longrightarrow>
           toFixed2 (t * (7 / 10)) \<le> simulateReasonablePrice t mx live \<and>
           simulateReasonablePrice t mx live \<le> toFixed2 t) \<and>
        (\<not> d_deal live < 6 / 10 \<longrightarrow>
           toFixed2 t \<le> simulateReasonablePrice t mx live \<and>
           simulateReasonablePrice t mx live \<le> toFixed2 mx))"
proof -
  let ?md = "getMarketPrice b s site pr live dr"
  let ?sim = "simulateMarketData (bs_targetPrice s) (bs_maxPrice s) site dr"
  have sim: "md_price ?sim = simulateMarketPrice (bs_targetPrice s) (bs_maxPrice s) dr"
    "\<not> realData ?sim"
    by (simp_all add: simulateMarketData_def)
  have 1: "executeAutomatedPurchase u s cs site pricePaid ct md urls now store = (None, store) \<or>
    (\<exists>x. executeAutomatedPurchase u s cs site pricePaid ct md urls now store
            = (Some x, store @ [x]) \<and>
          bp_status x = Success \<and> bp_quantity x = 1 \<and> bp_price x = pricePaid \<and>
          bp_total x = pricePaid)"
    using executeAutomatedPurchase_cases[of u s cs site pricePaid ct md urls now store] by blast
  have 2: "testPurchases (checkWebsite u s cs ct site pr live dr urls now b) = testPurchases b \<or>
       (\<exists>x. testPurchases (checkWebsite u s cs ct site pr live dr urls now b)
               = testPurchases b @ [x] \<and>
             bp_status x = Success \<and> bp_quantity x = 1 \<and>
             bp_price x = md_price ?md \<and> bp_realScraping x = realData ?md)"
    using checkWebsite_cases[of u s cs ct site pr live dr urls now b] by blast
  have 3: "md_price ?md = simulateMarketPrice (bs_targetPrice s) (bs_maxPrice s) dr \<and>
           \<not> realData ?md"
    if a: "\<not> realScrapingEnabled b \<or> site \<notin> set scrapers \<or>
       (\<exists>r. pr = Returned r \<and> success r \<and> (price r = None \<or> price r = Some 0))"
  proof -
    have "?md = ?sim"
    proof (cases "\<not> realScrapingEnabled b \<or> site \<notin> set scrapers")
      case True
      then show ?thesis by (rule getMarketPrice_disabled)
    next
      case False
      then obtain r where "pr = Returned r" "success r" "price r = None \<or> price r = Some 0"
        using a by blast
      then show ?thesis
        using False by (intro getMarketPrice_priceless[where r = r]) simp_all
    qed
    then show ?thesis using sim by simp
  qed
  have 4: "if simulateReasonablePrice (bs_targetPrice s) (bs_maxPrice s) live = 0
         then md_price ?md = simulateMarketPrice (bs_targetPrice s) (bs_maxPrice s) dr \<and>
              \<not> realData ?md
         else md_price ?md = simulateReasonablePrice (bs_targetPrice s) (bs_maxPrice s) live \<and>
              realData ?md"
    if a: "realScrapingEnabled b \<and> site \<in> set scrapers \<and>
       ((\<exists>e. pr = Thrown e) \<or> (\<exists>r. pr = Returned r \<and> \<not> success r))"
  proof -
    from a have "realScrapingEnabled b" "site \<in> set scrapers"
      "(\<exists>e. pr = Thrown e) \<or> (\<exists>r. pr = Returned r \<and> \<not> success r)"
      by simp_all
    from getMarketPrice_failed[OF this, of s live dr] show ?thesis
      using sim by simp
  qed
  note 5 = simulateMarketPrice_draws[of t mx dr]
  note 6 = simulateReasonablePrice_draws[of t mx live]
  have 7: "0 \<le> d_price dr \<and> d_price dr < 1 \<and> 0 \<le> t \<and> t \<le> mx \<longrightarrow>
        (d_deal dr < 7 / 10 \<longrightarrow>
           toFixed2 (t * (8 / 10)) \<le> simulateMarketPrice t mx dr \<and>
           simulateMarketPrice t mx dr \<le> toFixed2 t) \<and>
        (\<not> d_deal dr < 7 / 10 \<longrightarrow>
           toFixed2 t \<le> simulateMarketPrice t mx dr \<and>
           simulateMarketPrice t mx dr \<le> toFixed2 mx)"
    using simulateMarketPrice_range[of dr t mx] by blast
  have 8: "0 \<le> d_price live \<and> d_price live < 1 \<and> 0 \<le> t \<and> t \<le> mx \<longrightarrow>
        (d_deal live < 6 / 10 \<longrightarrow>
           toFixed2 (t * (7 / 10)) \<le> simulateReasonablePrice t mx live \<and>
           simulateReasonablePrice t mx live \<le> toFixed2 t) \<and>
        (\<not> d_deal live < 6 / 10 \<longrightarrow>
           toFixed2 t \<le> simulateReasonablePrice t mx live \<and>
           simulateReasonablePrice t mx live \<le> toFixed2 mx)"
    using simulateReasonablePrice_range[of live t mx] by blast
  show ?thesis
    using 1 2 3 4 5 6 7 8 by blast
qed

theorem C10_bot_records_witness:
  "\<not> realScrapingEnabled bot0 \<and> realScrapingEnabled bot1 \<and>
   ''target'' \<in> set scrapers \<and> ''ebay'' \<notin> set scrapers \<and>
   recorded (checkWebsite user0 bsku0 cards0 ''quick'' ''target'' (Returned observed0)
               draws1 draws0 urls0 120000 bot0) = [(Success, 1, 45 / 2, ''simulated'')] \<and>
   recorded (checkWebsite user0 bsku0 cards0 ''quick'' ''ebay'' (Returned observed0)
               draws1 draws0 urls0 120000 bot1) = [(Success, 1, 45 / 2, ''simulated'')] \<and>
   recorded (checkWebsite user0 bsku0 cards0 ''quick'' ''target'' (Returned priceless0)
               draws1 draws0 urls0 120000 bot1) = [(Success, 1, 45 / 2, ''simulated'')] \<and>
   recorded (checkWebsite user0 bsku0 cards0 ''quick'' ''target'' (Thrown ''net::ERR_TIMED_OUT'')
               draws1 draws0 urls0 120000 bot1) = [(Success, 1, 19, ''scraped'')] \<and>
   recorded (checkWebsite user0 bsku0 cards0 ''quick'' ''target'' (Returned failed0)
               draws1 draws0 urls0 120000 bot1) = [(Success, 1, 19, ''scraped'')] \<and>
   recorded (checkWebsite user0 bsku0 cards0 ''quick'' ''target'' (Returned failed0)
               draws0 draws1 urls0 120000 bot1) = [(Success, 1, 85 / 4, ''scraped'')] \<and>
   recorded (checkWebsite user0 bsku0 cards0 ''quick'' ''target'' (Returned observed0)
               draws1 draws0 urls0 120000 bot1) = [(Success, 1, 2149 / 100, ''scraped'')] \<and>
   md_price (getMarketPrice bot0 bsku0 ''target'' (Returned observed0) draws1 draws0)
     = simulateMarketPrice 25 35 draws0 \<and>
   md_price (getMarketPrice bot1 bsku0 ''ebay'' (Returned observed0) draws1 draws0)
     = simulateMarketPrice 25 35 draws0 \<and>
   md_price (getMarketPrice bot1 bsku0 ''target'' (Returned priceless0) draws1 draws0)
     = simulateMarketPrice 25 35 draws0 \<and>
   md_price (getMarketPrice bot1 bsku0 ''target'' (Thrown ''net::ERR_TIMED_OUT'') draws1 draws0)
     = simulateReasonablePrice 25 35 draws1 \<and>
   md_price (getMarketPrice bot1 bsku0 ''target'' (Returned failed0) draws1 draws0)
     = simulateReasonablePrice 25 35 draws1 \<and>
   simulateMarketPrice 25 35 draws0 = 45 / 2 \<and> simulateMarketPrice 25 35 draws1 = 21 \<and>
   simulateReasonablePrice 25 35 draws1 = 19 \<and> simulateReasonablePrice 25 35 draws0 = 85 / 4 \<and>
   toFixed2 (25 * (8 / 10)) \<le> simulateMarketPrice 25 35 draws0 \<and>
   simulateMarketPrice 25 35 draws0 \<le> toFixed2 25 \<and>
   toFixed2 (25 * (7 / 10)) \<le> simulateReasonablePrice 25 35 draws1 \<and>
   simulateReasonablePrice 25 35 draws1 \<le> toFixed2 25"
proof -
  have b: "\<not> realScrapingEnabled bot0" "realScrapingEnabled bot1"
    "''target'' \<in> set scrapers" "''ebay'' \<notin> set scrapers"
    "bs_targetPrice bsku0 = 25" "bs_maxPrice bsku0 = 35"
    by (simp_all add: bot0_def bot1_def scrapers_def bsku0_def)
  have r: "success observed0" "success priceless0" "price priceless0 = None"
    "\<not> success failed0"
    by (simp_all add: observed0_def priceless0_def failed0_def)
  have d: "0 \<le> d_price draws0" "d_price draws0 < 1" "d_deal draws0 < 7 / 10"
    "0 \<le> d_price draws1" "d_price draws1 < 1" "d_deal draws1 < 6 / 10"
    by (simp_all add: draws0_def draws1_def)
  have e: "recorded (checkWebsite user0 bsku0 cards0 ''quick'' ''target'' (Returned observed0)
               draws1 draws0 urls0 120000 bot0) = [(Success, 1, 45 / 2, ''simulated'')]"
    "recorded (checkWebsite user0 bsku0 cards0 ''quick'' ''ebay'' (Returned observed0)
               draws1 draws0 urls0 120000 bot1) = [(Success, 1, 45 / 2, ''simulated'')]"
    "recorded (checkWebsite user0 bsku0 cards0 ''quick'' ''target'' (Returned priceless0)
               draws1 draws0 urls0 120000 bot1) = [(Success, 1, 45 / 2, ''simulated'')]"
    "recorded (checkWebsite user0 bsku0 cards0 ''quick'' ''target'' (Thrown ''net::ERR_TIMED_OUT'')
               draws1 draws0 urls0 120000 bot1) = [(Success, 1, 19, ''scraped'')]"
    "recorded (checkWebsite user0 bsku0 cards0 ''quick'' ''target'' (Returned failed0)
               draws1 draws0 urls0 120000 bot1) = [(Success, 1, 19, ''scraped'')]"
    "recorded (checkWebsite user0 bsku0 cards0 ''quick'' ''target'' (Returned failed0)
               draws0 draws1 urls0 120000 bot1) = [(Success, 1, 85 / 4, ''scraped'')]"
    "recorded (checkWebsite user0 bsku0 cards0 ''quick'' ''target'' (Returned observed0)
               draws1 draws0 urls0 120000 bot1) = [(Success, 1, 2149 / 100, ''scraped'')]"
    by code_simp+
  have p: "simulateMarketPrice 25 35 draws0 = 45 / 2" "simulateMarketPrice 25 35 draws1 = 21"
    "simulateReasonablePrice 25 35 draws1 = 19" "simulateReasonablePrice 25 35 draws0 = 85 / 4"
    by code_simp+
  have 1: "md_price (getMarketPrice bot0 bsku0 ''target'' (Returned observed0) draws1 draws0)
             = simulateMarketPrice 25 35 draws0"
    using b C10_bot_records[where b = bot0 and s = bsku0 and site = "''target''"
        and pr = "Returned observed0" and live = draws1 and dr = draws0]
    by simp
  have 2: "md_price (getMarketPrice bot1 bsku0 ''ebay'' (Returned observed0) draws1 draws0)
             = simulateMarketPrice 25 35 draws0"
    using b C10_bot_records[where b = bot1 and s = bsku0 and site = "''ebay''"
        and pr = "Returned observed0" and live = draws1 and dr = draws0]
    by simp
  have 3: "md_price (getMarketPrice bot1 bsku0 ''target'' (Returned priceless0) draws1 draws0)
             = simulateMarketPrice 25 35 draws0"
    using b r C10_bot_records[where b = bot1 and s = bsku0 and site = "''target''"
        and pr = "Returned priceless0" and live = draws1 and dr = draws0]
    by simp
  have 4: "md_price (getMarketPrice bot1 bsku0 ''target'' (Thrown ''net::ERR_TIMED_OUT'')
                       draws1 draws0)
             = simulateReasonablePrice 25 35 draws1"
    using b p C10_bot_records[where b = bot1 and s = bsku0 and site = "''target''"
        and pr = "Thrown ''net::ERR_TIMED_OUT''" and live = draws1 and dr = draws0]
    by simp
  have 5: "md_price (getMarketPrice bot1 bsku0 ''target'' (Returned failed0) draws1 draws0)
             = simulateReasonablePrice 25 35 draws1"
    using b r p C10_bot_records[where b = bot1 and s = bsku0 and site = "''target''"
        and pr = "Returned failed0" and live = draws1 and dr = draws0]
    by simp
  have 6: "toFixed2 (25 * (8 / 10)) \<le> simulateMarketPrice 25 35 draws0"
    "simulateMarketPrice 25 35 draws0 \<le> toFixed2 25"
    "toFixed2 (25 * (7 / 10)) \<le> simulateReasonablePrice 25 35 draws1"
    "simulateReasonablePrice 25 35 draws1 \<le> toFixed2 25"
  proof -
    have n: "(0 :: rat) \<le> 25" "(25 :: rat) \<le> 35"
      by simp_all
    note c = C10_bot_records[of user0 bsku0 cards0 "''target''" 20 "''quick''" None urls0 120000
        "[]" "Returned observed0" draws1 draws0 bot0 25 35]
    from c d n show "toFixed2 (25 * (8 / 10)) \<le> simulateMarketPrice 25 35 draws0"
      by blast
    from c d n show "simulateMarketPrice 25 35 draws0 \<le> toFixed2 25"
      by blast
    from c d n show "toFixed2 (25 * (7 / 10)) \<le> simulateReasonablePrice 25 35 draws1"
      by blast
    from c d n show "simulateReasonablePrice 25 35 draws1 \<le> toFixed2 25"
      by blast
  qed
  show ?thesis
    using b(1-4) e p 1 2 3 4 5 6 by simp
qed

end
